theory Spec2Isabelle
  imports Complex_Main "HOL-Library.Word"
begin

section \<open>JavaScript values, strings and errors\<close>

text \<open>
  A JavaScript string is modelled as a HOL \<open>string\<close> holding its UTF-8 bytes. The Japanese
  message constants of \<open>speech-config.js\<close> are therefore written as byte lists. Searching
  such a string for an ASCII needle gives the same answer on UTF-8 bytes as on UTF-16 code
  units, and emptiness is the same in both encodings; no other length of a message is used.

  \<open>toLowerCase\<close> maps the ASCII letters \<open>A\<close>..\<open>Z\<close> and leaves every other byte alone.
  JavaScript also maps non-ASCII letters; no key used below contains a letter that a
  non-ASCII character lower-cases to, so key membership is decided the same way.
\<close>

definition upper_letters :: string where
  "upper_letters = ''ABCDEFGHIJKLMNOPQRSTUVWXYZ''"

definition lower_letters :: string where
  "lower_letters = ''abcdefghijklmnopqrstuvwxyz''"

definition lower_char :: "char \<Rightarrow> char" where
  "lower_char c =
     (case map_of (zip upper_letters lower_letters) c of Some d \<Rightarrow> d | None \<Rightarrow> c)"

definition toLowerCase :: "string \<Rightarrow> string" where
  "toLowerCase s = map lower_char s"

fun startsWith :: "string \<Rightarrow> string \<Rightarrow> bool" where
  "startsWith s [] = True"
| "startsWith [] (d # ds) = False"
| "startsWith (c # cs) (d # ds) = (c = d \<and> startsWith cs ds)"

fun includes_str :: "string \<Rightarrow> string \<Rightarrow> bool" where
  "includes_str [] sub = (sub = [])"
| "includes_str (c # cs) sub = (startsWith (c # cs) sub \<or> includes_str cs sub)"

text \<open>\<open>Array.prototype.join\<close> on a list of strings.\<close>

fun join :: "string \<Rightarrow> string list \<Rightarrow> string" where
  "join sep [] = []"
| "join sep [x] = x"
| "join sep (x # y # ys) = x @ sep @ join sep (y # ys)"

text \<open>Decimal rendering of a loop index inside a template literal.\<close>

definition digit_char :: "nat \<Rightarrow> char" where
  "digit_char d = ''0123456789'' ! d"

fun string_of_nat :: "nat \<Rightarrow> string" where
  "string_of_nat n =
     (if n < 10 then [digit_char n] else string_of_nat (n div 10) @ [digit_char (n mod 10)])"

declare string_of_nat.simps [simp del]

text \<open>
  A thrown value: an \<open>Error\<close> object with its \<open>message\<close> and, for errors of the remote
  recognizer, a numeric status \<open>code\<close>. \<open>new Error(msg)\<close> has no code.
\<close>

datatype js_error = JsError (message: string) (code: "int option")

definition new_Error :: "string \<Rightarrow> js_error" where
  "new_Error msg = JsError msg None"

text \<open>
  The values a property read on an object literal can give: a string stored in the literal,
  something inherited from \<open>Object.prototype\<close>, or \<open>undefined\<close>.
\<close>

datatype js_value = Undefined | Str string | Function string | ObjectPrototype

fun truthy :: "js_value \<Rightarrow> bool" where
  "truthy Undefined = False"
| "truthy (Str s) = (s \<noteq> [])"
| "truthy (Function f) = True"
| "truthy ObjectPrototype = True"

text \<open>
  The properties every object literal inherits from \<open>Object.prototype\<close>: a read
  \<open>obj[key]\<close> that finds no own property continues along the prototype chain.
\<close>

definition Object_prototype :: "(string \<times> js_value) list" where
  "Object_prototype =
     [(''constructor'', Function ''Object''),
      (''__proto__'', ObjectPrototype),
      (''hasOwnProperty'', Function ''hasOwnProperty''),
      (''isPrototypeOf'', Function ''isPrototypeOf''),
      (''propertyIsEnumerable'', Function ''propertyIsEnumerable''),
      (''toLocaleString'', Function ''toLocaleString''),
      (''toString'', Function ''toString''),
      (''valueOf'', Function ''valueOf''),
      (''__defineGetter__'', Function ''__defineGetter__''),
      (''__defineSetter__'', Function ''__defineSetter__''),
      (''__lookupGetter__'', Function ''__lookupGetter__''),
      (''__lookupSetter__'', Function ''__lookupSetter__'')]"

definition get_property :: "(string \<times> string) list \<Rightarrow> string \<Rightarrow> js_value" where
  "get_property obj key =
     (case map_of obj key of
        Some v \<Rightarrow> Str v
      | None \<Rightarrow> (case map_of Object_prototype key of Some v \<Rightarrow> v | None \<Rightarrow> Undefined))"

section \<open>Configuration (\<open>speech-config.js\<close>)\<close>

record speech_config =
  encoding :: string
  sampleRateHertz :: nat
  languageCode :: string
  alternativeLanguageCodes :: "string list"
  enableAutomaticPunctuation :: bool
  enableWordTimeOffsets :: bool
  enableWordConfidence :: bool
  model :: string
  useEnhanced :: bool
  maxAudioLength :: nat
  maxFileSize :: nat
  supportedFormats :: "string list"
  rateLimitPerMinute :: nat
  rateLimitPerHour :: nat

definition speechConfig :: speech_config where
  "speechConfig =
     \<lparr> encoding = ''WEBM_OPUS'',
       sampleRateHertz = 16000,
       languageCode = ''ja-JP'',
       alternativeLanguageCodes = [''en-US''],
       enableAutomaticPunctuation = True,
       enableWordTimeOffsets = True,
       enableWordConfidence = True,
       model = ''latest_long'',
       useEnhanced = True,
       maxAudioLength = 300,
       maxFileSize = 10 * 1024 * 1024,
       supportedFormats = [''webm'', ''wav'', ''mp3'', ''ogg''],
       rateLimitPerMinute = 60,
       rateLimitPerHour = 1000 \<rparr>"

definition errorMessages_UNSUPPORTED_FORMAT :: string where
  "errorMessages_UNSUPPORTED_FORMAT =
    [CHR 0xE5, CHR 0xAF, CHR 0xBE, CHR 0xE5, CHR 0xBF, CHR 0x9C, CHR 0xE3, CHR 0x81, CHR
     0x97, CHR 0xE3, CHR 0x81, CHR 0xA6, CHR 0xE3, CHR 0x81, CHR 0x84, CHR 0xE3, CHR 0x81,
     CHR 0xAA, CHR 0xE3, CHR 0x81, CHR 0x84, CHR 0xE9, CHR 0x9F, CHR 0xB3, CHR 0xE5, CHR
     0xA3, CHR 0xB0, CHR 0xE3, CHR 0x83, CHR 0x95, CHR 0xE3, CHR 0x82, CHR 0xA9, CHR 0xE3,
     CHR 0x83, CHR 0xBC, CHR 0xE3, CHR 0x83, CHR 0x9E, CHR 0xE3, CHR 0x83, CHR 0x83, CHR
     0xE3, CHR 0x83, CHR 0x88, CHR 0xE3, CHR 0x81, CHR 0xA7, CHR 0xE3, CHR 0x81, CHR 0x99]"

definition errorMessages_FILE_TOO_LARGE :: string where
  "errorMessages_FILE_TOO_LARGE =
    [CHR 0xE3, CHR 0x83, CHR 0x95, CHR 0xE3, CHR 0x82, CHR 0xA1, CHR 0xE3, CHR 0x82, CHR
     0xA4, CHR 0xE3, CHR 0x83, CHR 0xAB, CHR 0xE3, CHR 0x82, CHR 0xB5, CHR 0xE3, CHR 0x82,
     CHR 0xA4, CHR 0xE3, CHR 0x82, CHR 0xBA, CHR 0xE3, CHR 0x81, CHR 0x8C, CHR 0xE5, CHR
     0xA4, CHR 0xA7, CHR 0xE3, CHR 0x81, CHR 0x8D, CHR 0xE3, CHR 0x81, CHR 0x99, CHR 0xE3,
     CHR 0x81, CHR 0x8E, CHR 0xE3, CHR 0x81, CHR 0xBE, CHR 0xE3, CHR 0x81, CHR 0x99, CHR
     0xEF, CHR 0xBC, CHR 0x88, CHR 0x31, CHR 0x30, CHR 0x4D, CHR 0x42, CHR 0xE4, CHR 0xBB,
     CHR 0xA5, CHR 0xE4, CHR 0xB8, CHR 0x8B, CHR 0xE3, CHR 0x81, CHR 0xAB, CHR 0xE3, CHR
     0x81, CHR 0x97, CHR 0xE3, CHR 0x81, CHR 0xA6, CHR 0xE3, CHR 0x81, CHR 0x8F, CHR 0xE3,
     CHR 0x81, CHR 0xA0, CHR 0xE3, CHR 0x81, CHR 0x95, CHR 0xE3, CHR 0x81, CHR 0x84, CHR
     0xEF, CHR 0xBC, CHR 0x89]"

definition errorMessages_AUDIO_TOO_LONG :: string where
  "errorMessages_AUDIO_TOO_LONG =
    [CHR 0xE9, CHR 0x9F, CHR 0xB3, CHR 0xE5, CHR 0xA3, CHR 0xB0, CHR 0xE3, CHR 0x81, CHR
     0x8C, CHR 0xE9, CHR 0x95, CHR 0xB7, CHR 0xE3, CHR 0x81, CHR 0x99, CHR 0xE3, CHR 0x81,
     CHR 0x8E, CHR 0xE3, CHR 0x81, CHR 0xBE, CHR 0xE3, CHR 0x81, CHR 0x99, CHR 0xEF, CHR
     0xBC, CHR 0x88, CHR 0x35, CHR 0xE5, CHR 0x88, CHR 0x86, CHR 0xE4, CHR 0xBB, CHR 0xA5,
     CHR 0xE4, CHR 0xB8, CHR 0x8B, CHR 0xE3, CHR 0x81, CHR 0xAB, CHR 0xE3, CHR 0x81, CHR
     0x97, CHR 0xE3, CHR 0x81, CHR 0xA6, CHR 0xE3, CHR 0x81, CHR 0x8F, CHR 0xE3, CHR 0x81,
     CHR 0xA0, CHR 0xE3, CHR 0x81, CHR 0x95, CHR 0xE3, CHR 0x81, CHR 0x84, CHR 0xEF, CHR
     0xBC, CHR 0x89]"

definition errorMessages_RATE_LIMIT_EXCEEDED :: string where
  "errorMessages_RATE_LIMIT_EXCEEDED =
    [CHR 0xE3, CHR 0x83, CHR 0xAA, CHR 0xE3, CHR 0x82, CHR 0xAF, CHR 0xE3, CHR 0x82, CHR
     0xA8, CHR 0xE3, CHR 0x82, CHR 0xB9, CHR 0xE3, CHR 0x83, CHR 0x88, CHR 0xE5, CHR 0x88,
     CHR 0xB6, CHR 0xE9, CHR 0x99, CHR 0x90, CHR 0xE3, CHR 0x82, CHR 0x92, CHR 0xE8, CHR
     0xB6, CHR 0x85, CHR 0xE3, CHR 0x81, CHR 0x88, CHR 0xE3, CHR 0x81, CHR 0xBE, CHR 0xE3,
     CHR 0x81, CHR 0x97, CHR 0xE3, CHR 0x81, CHR 0x9F, CHR 0xE3, CHR 0x80, CHR 0x82, CHR
     0xE3, CHR 0x81, CHR 0x97, CHR 0xE3, CHR 0x81, CHR 0xB0, CHR 0xE3, CHR 0x82, CHR 0x89,
     CHR 0xE3, CHR 0x81, CHR 0x8F, CHR 0xE5, CHR 0xBE, CHR 0x85, CHR 0xE3, CHR 0x81, CHR
     0xA3, CHR 0xE3, CHR 0x81, CHR 0xA6, CHR 0xE3, CHR 0x81, CHR 0x8B, CHR 0xE3, CHR 0x82,
     CHR 0x89, CHR 0xE5, CHR 0x86, CHR 0x8D, CHR 0xE8, CHR 0xA9, CHR 0xA6, CHR 0xE8, CHR
     0xA1, CHR 0x8C, CHR 0xE3, CHR 0x81, CHR 0x97, CHR 0xE3, CHR 0x81, CHR 0xA6, CHR 0xE3,
     CHR 0x81, CHR 0x8F, CHR 0xE3, CHR 0x81, CHR 0xA0, CHR 0xE3, CHR 0x81, CHR 0x95, CHR
     0xE3, CHR 0x81, CHR 0x84]"

definition errorMessages_AUTHENTICATION_FAILED :: string where
  "errorMessages_AUTHENTICATION_FAILED =
    [CHR 0xE8, CHR 0xAA, CHR 0x8D, CHR 0xE8, CHR 0xA8, CHR 0xBC, CHR 0xE3, CHR 0x81, CHR
     0xAB, CHR 0xE5, CHR 0xA4, CHR 0xB1, CHR 0xE6, CHR 0x95, CHR 0x97, CHR 0xE3, CHR 0x81,
     CHR 0x97, CHR 0xE3, CHR 0x81, CHR 0xBE, CHR 0xE3, CHR 0x81, CHR 0x97, CHR 0xE3, CHR
     0x81, CHR 0x9F]"

definition errorMessages_TRANSCRIPTION_FAILED :: string where
  "errorMessages_TRANSCRIPTION_FAILED =
    [CHR 0xE9, CHR 0x9F, CHR 0xB3, CHR 0xE5, CHR 0xA3, CHR 0xB0, CHR 0xE3, CHR 0x81, CHR
     0xAE, CHR 0xE6, CHR 0x96, CHR 0x87, CHR 0xE5, CHR 0xAD, CHR 0x97, CHR 0xE8, CHR 0xB5,
     CHR 0xB7, CHR 0xE3, CHR 0x81, CHR 0x93, CHR 0xE3, CHR 0x81, CHR 0x97, CHR 0xE3, CHR
     0x81, CHR 0xAB, CHR 0xE5, CHR 0xA4, CHR 0xB1, CHR 0xE6, CHR 0x95, CHR 0x97, CHR 0xE3,
     CHR 0x81, CHR 0x97, CHR 0xE3, CHR 0x81, CHR 0xBE, CHR 0xE3, CHR 0x81, CHR 0x97, CHR
     0xE3, CHR 0x81, CHR 0x9F]"

definition errorMessages_NETWORK_ERROR :: string where
  "errorMessages_NETWORK_ERROR =
    [CHR 0xE3, CHR 0x83, CHR 0x8D, CHR 0xE3, CHR 0x83, CHR 0x83, CHR 0xE3, CHR 0x83, CHR
     0x88, CHR 0xE3, CHR 0x83, CHR 0xAF, CHR 0xE3, CHR 0x83, CHR 0xBC, CHR 0xE3, CHR 0x82,
     CHR 0xAF, CHR 0xE3, CHR 0x82, CHR 0xA8, CHR 0xE3, CHR 0x83, CHR 0xA9, CHR 0xE3, CHR
     0x83, CHR 0xBC, CHR 0xE3, CHR 0x81, CHR 0x8C, CHR 0xE7, CHR 0x99, CHR 0xBA, CHR 0xE7,
     CHR 0x94, CHR 0x9F, CHR 0xE3, CHR 0x81, CHR 0x97, CHR 0xE3, CHR 0x81, CHR 0xBE, CHR
     0xE3, CHR 0x81, CHR 0x97, CHR 0xE3, CHR 0x81, CHR 0x9F]"

section \<open>Audio validation and encoding lookup (\<open>GoogleSTTService\<close>)\<close>

type_synonym buffer = "8 word list"

text \<open>
  \<open>validateAudioFile\<close>: the three checks in source order. The estimated duration is a
  quotient of two integers compared with an integer; on the reals it decides the same way
  as on doubles, since the quotients of interest are multiples of \<open>1/32000\<close>.
\<close>

definition validateAudioFile :: "buffer \<Rightarrow> string \<Rightarrow> js_error + bool" where
  "validateAudioFile audioBuffer format =
     (if length audioBuffer > maxFileSize speechConfig
        then Inl (new_Error errorMessages_FILE_TOO_LARGE)
      else if toLowerCase format \<notin> set (supportedFormats speechConfig)
        then Inl (new_Error errorMessages_UNSUPPORTED_FORMAT)
      else if real (length audioBuffer) / real (sampleRateHertz speechConfig * 2)
                > real (maxAudioLength speechConfig)
        then Inl (new_Error errorMessages_AUDIO_TOO_LONG)
      else Inr True)"

definition formatMap :: "(string \<times> string) list" where
  "formatMap =
     [(''webm'', ''WEBM_OPUS''), (''wav'', ''LINEAR16''), (''mp3'', ''MP3''), (''ogg'', ''OGG_OPUS'')]"

text \<open>\<open>getEncodingConfig\<close>: \<open>formatMap[format.toLowerCase()] || 'WEBM_OPUS'\<close>.\<close>

definition getEncodingConfig :: "string \<Rightarrow> js_value" where
  "getEncodingConfig format =
     (let v = get_property formatMap (toLowerCase format)
      in if truthy v then v else Str ''WEBM_OPUS'')"

section \<open>Rate limiting (\<open>GoogleSTTService.checkRateLimit\<close>)\<close>

text \<open>
  \<open>requestCount\<close> is the \<open>Map\<close> from caller id to the stored list of timestamps
  (milliseconds). \<open>now\<close> is the reading of \<open>Date.now()\<close> taken by the call.
\<close>

type_synonym request_map = "string \<rightharpoonup> int list"

definition checkRateLimit :: "request_map \<Rightarrow> string \<Rightarrow> int \<Rightarrow> js_error + request_map" where
  "checkRateLimit requestCount clientId now =
     (let clientRequests = (case requestCount clientId of Some ts \<Rightarrow> ts | None \<Rightarrow> []);
          recentRequests = filter (\<lambda>time. now - time < 60000) clientRequests
      in if length recentRequests \<ge> rateLimitPerMinute speechConfig
           then Inl (new_Error errorMessages_RATE_LIMIT_EXCEEDED)
         else
           let hourlyRequests = filter (\<lambda>time. now - time < 3600000) clientRequests
           in if length hourlyRequests \<ge> rateLimitPerHour speechConfig
                then Inl (new_Error errorMessages_RATE_LIMIT_EXCEEDED)
              else Inr (requestCount(clientId \<mapsto> recentRequests @ [now])))"


section \<open>The outside world\<close>

text \<open>
  Everything the code awaits is a call to a collaborator. The collaborators are given as
  oracles in an environment; the world records, in \<open>trace\<close>, every such call and every
  pacing delay in the order they happen, and in \<open>ticks\<close> how often the clock was read.
  The answer of a collaborator may depend on the position of the call in the trace.
\<close>

datatype google_auth =
  GoogleAuth (auth_scopes: "string list") (auth_projectId: "string option")
             (auth_keyFilename: "string option option")

datatype auth_client = AuthClient nat

datatype speech_client = SpeechClient (client_projectId: string) (client_auth: "auth_client option")

record recognition_config =
  cfg_encoding :: js_value
  cfg_sampleRateHertz :: nat
  cfg_languageCode :: string
  cfg_alternativeLanguageCodes :: "string list"
  cfg_enableAutomaticPunctuation :: bool
  cfg_enableWordTimeOffsets :: bool
  cfg_enableWordConfidence :: bool
  cfg_model :: string
  cfg_useEnhanced :: bool
  audioChannelCount :: nat
  enableSeparateRecognitionPerChannel :: bool
  profanityFilter :: bool
  enableSpokenPunctuation :: bool
  enableSpokenEmojis :: bool

text \<open>
  The request carries the audio as base64 text; the model keeps the bytes that text encodes.
\<close>

record recognize_request =
  config :: recognition_config
  audio_content :: buffer

record duration =
  seconds :: "int option"
  nanos :: "int option"

record word_info =
  wi_word :: string
  wi_startTime :: "duration option"
  wi_endTime :: "duration option"
  wi_confidence :: "real option"

record speech_alternative =
  alt_transcript :: "string option"
  alt_confidence :: "real option"
  alt_words :: "word_info list option"

record speech_result =
  result_alternatives :: "speech_alternative list"

record recognize_response =
  results :: "speech_result list option"

datatype event =
    GetClient google_auth
  | GetProjectId
  | GetAccessToken
  | Recognize recognize_request
  | Sleep nat

record env =
  GITHUB_ACTIONS :: "string option"
  GOOGLE_APPLICATION_CREDENTIALS :: "string option"
  GOOGLE_CLOUD_PROJECT_ID :: "string option"
  auth_getClient :: "nat \<Rightarrow> js_error + auth_client"
  auth_getProjectId :: "nat \<Rightarrow> js_error + string"
  client_getAccessToken :: "nat \<Rightarrow> js_error + string option"
  speechClient_recognize :: "nat \<Rightarrow> recognize_request \<Rightarrow> js_error + recognize_response"
  Date_now :: "nat \<Rightarrow> int"

record manager =
  auth :: "google_auth option"
  client :: "auth_client option"
  initialized :: bool

record service =
  speechClient :: "speech_client option"
  stt_initialized :: bool
  requestCount :: request_map

record world =
  wim :: manager
  svc :: service
  trace :: "event list"
  ticks :: nat

type_synonym 'a outcome = "(js_error + 'a) \<times> world"

text \<open>The state the two constructors leave behind, before anything has been called.\<close>

definition new_world :: world where
  "new_world =
     \<lparr> wim = \<lparr> auth = None, client = None, initialized = False \<rparr>,
       svc = \<lparr> speechClient = None, stt_initialized = False, requestCount = Map.empty \<rparr>,
       trace = [], ticks = 0 \<rparr>"

definition call_getClient :: "env \<Rightarrow> google_auth \<Rightarrow> world \<Rightarrow> auth_client outcome" where
  "call_getClient e a w = (auth_getClient e (length (trace w)), w\<lparr>trace := trace w @ [GetClient a]\<rparr>)"

definition call_getProjectId :: "env \<Rightarrow> world \<Rightarrow> string outcome" where
  "call_getProjectId e w = (auth_getProjectId e (length (trace w)), w\<lparr>trace := trace w @ [GetProjectId]\<rparr>)"

definition call_getAccessToken :: "env \<Rightarrow> world \<Rightarrow> (string option) outcome" where
  "call_getAccessToken e w =
     (client_getAccessToken e (length (trace w)), w\<lparr>trace := trace w @ [GetAccessToken]\<rparr>)"

definition call_recognize :: "env \<Rightarrow> recognize_request \<Rightarrow> world \<Rightarrow> recognize_response outcome" where
  "call_recognize e req w =
     (speechClient_recognize e (length (trace w)) req, w\<lparr>trace := trace w @ [Recognize req]\<rparr>)"

definition read_clock :: "env \<Rightarrow> world \<Rightarrow> int \<times> world" where
  "read_clock e w = (Date_now e (ticks w), w\<lparr>ticks := Suc (ticks w)\<rparr>)"

definition sleep :: "nat \<Rightarrow> world \<Rightarrow> world" where
  "sleep ms w = w\<lparr>trace := trace w @ [Sleep ms]\<rparr>"

text \<open>Reading a property of \<open>null\<close> or \<open>undefined\<close> throws a \<open>TypeError\<close>.\<close>

definition TypeError :: "string \<Rightarrow> string \<Rightarrow> js_error" where
  "TypeError base prop =
     JsError (''Cannot read properties of '' @ base @ '' (reading '' @ [CHR 0x27] @ prop
                @ [CHR 0x27] @ '')'') None"

text \<open>Evaluating an identifier that nothing declares throws a \<open>ReferenceError\<close>.\<close>

definition ReferenceError :: "string \<Rightarrow> js_error" where
  "ReferenceError name = JsError (name @ '' is not defined'') None"

text \<open>A string is falsy when it is missing or empty.\<close>

definition string_truthy :: "string option \<Rightarrow> bool" where
  "string_truthy s = (case s of None \<Rightarrow> False | Some t \<Rightarrow> t \<noteq> [])"

definition or_string :: "string option \<Rightarrow> string \<Rightarrow> string" where
  "or_string s d = (if string_truthy s then the s else d)"

section \<open>Credential manager (\<open>WorkloadIdentityManager\<close>, revised file)\<close>

definition AUTH_INIT_FAILED :: string where
  "AUTH_INIT_FAILED =
    [CHR 0xE8, CHR 0xAA, CHR 0x8D, CHR 0xE8, CHR 0xA8, CHR 0xBC, CHR 0xE3, CHR 0x81, CHR
     0xAE, CHR 0xE5, CHR 0x88, CHR 0x9D, CHR 0xE6, CHR 0x9C, CHR 0x9F, CHR 0xE5, CHR 0x8C,
     CHR 0x96, CHR 0xE3, CHR 0x81, CHR 0xAB, CHR 0xE5, CHR 0xA4, CHR 0xB1, CHR 0xE6, CHR
     0x95, CHR 0x97, CHR 0xE3, CHR 0x81, CHR 0x97, CHR 0xE3, CHR 0x81, CHR 0xBE, CHR 0xE3,
     CHR 0x81, CHR 0x97, CHR 0xE3, CHR 0x81, CHR 0x9F]"

definition ACCESS_TOKEN_FAILED :: string where
  "ACCESS_TOKEN_FAILED =
    [CHR 0xE3, CHR 0x82, CHR 0xA2, CHR 0xE3, CHR 0x82, CHR 0xAF, CHR 0xE3, CHR 0x82, CHR
     0xBB, CHR 0xE3, CHR 0x82, CHR 0xB9, CHR 0xE3, CHR 0x83, CHR 0x88, CHR 0xE3, CHR 0x83,
     CHR 0xBC, CHR 0xE3, CHR 0x82, CHR 0xAF, CHR 0xE3, CHR 0x83, CHR 0xB3, CHR 0xE3, CHR
     0x81, CHR 0xAE, CHR 0xE5, CHR 0x8F, CHR 0x96, CHR 0xE5, CHR 0xBE, CHR 0x97, CHR 0xE3,
     CHR 0x81, CHR 0xAB, CHR 0xE5, CHR 0xA4, CHR 0xB1, CHR 0xE6, CHR 0x95, CHR 0x97, CHR
     0xE3, CHR 0x81, CHR 0x97, CHR 0xE3, CHR 0x81, CHR 0xBE, CHR 0xE3, CHR 0x81, CHR 0x97,
     CHR 0xE3, CHR 0x81, CHR 0x9F]"

definition REFRESH_FAILED :: string where
  "REFRESH_FAILED =
    [CHR 0xE8, CHR 0xAA, CHR 0x8D, CHR 0xE8, CHR 0xA8, CHR 0xBC, CHR 0xE3, CHR 0x81, CHR
     0xAE, CHR 0xE3, CHR 0x83, CHR 0xAA, CHR 0xE3, CHR 0x83, CHR 0x95, CHR 0xE3, CHR 0x83,
     CHR 0xAC, CHR 0xE3, CHR 0x83, CHR 0x83, CHR 0xE3, CHR 0x82, CHR 0xB7, CHR 0xE3, CHR
     0x83, CHR 0xA5, CHR 0xE3, CHR 0x81, CHR 0xAB, CHR 0xE5, CHR 0xA4, CHR 0xB1, CHR 0xE6,
     CHR 0x95, CHR 0x97, CHR 0xE3, CHR 0x81, CHR 0x97, CHR 0xE3, CHR 0x81, CHR 0xBE, CHR
     0xE3, CHR 0x81, CHR 0x97, CHR 0xE3, CHR 0x81, CHR 0x9F]"

definition NOT_INITIALIZED :: string where
  "NOT_INITIALIZED = ''WorkloadIdentityManager is not initialized. Call initialize() first.''"

definition workloadIdentityConfig_scopes :: "string list" where
  "workloadIdentityConfig_scopes =
     [''https://www.googleapis.com/auth/cloud-platform'', ''https://www.googleapis.com/auth/speech'']"

definition new_GoogleAuth :: "env \<Rightarrow> google_auth" where
  "new_GoogleAuth e =
     (if string_truthy (GITHUB_ACTIONS e)
        then GoogleAuth workloadIdentityConfig_scopes (GOOGLE_CLOUD_PROJECT_ID e) None
      else GoogleAuth workloadIdentityConfig_scopes (GOOGLE_CLOUD_PROJECT_ID e)
             (Some (GOOGLE_APPLICATION_CREDENTIALS e)))"

definition getAccessToken :: "env \<Rightarrow> world \<Rightarrow> (string option) outcome" where
  "getAccessToken e w =
     (if \<not> initialized (wim w) then (Inl (new_Error NOT_INITIALIZED), w)
      else case client (wim w) of
             None \<Rightarrow> (Inl (new_Error ACCESS_TOKEN_FAILED), w)
           | Some c \<Rightarrow>
               (case call_getAccessToken e w of
                  (Inl err, w1) \<Rightarrow> (Inl (new_Error ACCESS_TOKEN_FAILED), w1)
                | (Inr token, w1) \<Rightarrow> (Inr token, w1)))"

definition testAuthentication :: "env \<Rightarrow> world \<Rightarrow> unit outcome" where
  "testAuthentication e w =
     (case auth (wim w) of
        None \<Rightarrow> (Inl (TypeError ''null'' ''getProjectId''), w)
      | Some a \<Rightarrow>
          (case call_getProjectId e w of
             (Inl err, w1) \<Rightarrow> (Inl err, w1)
           | (Inr projectId, w1) \<Rightarrow>
               (case getAccessToken e w1 of
                  (Inl err, w2) \<Rightarrow> (Inl err, w2)
                | (Inr accessToken, w2) \<Rightarrow>
                    if \<not> string_truthy accessToken
                      then (Inl (new_Error ''Failed to get access token''), w2)
                    else (Inr (), w2))))"

definition initialize :: "env \<Rightarrow> world \<Rightarrow> unit outcome" where
  "initialize e w =
     (if initialized (wim w) then (Inr (), w)
      else
        let a = new_GoogleAuth e;
            w1 = w\<lparr>wim := (wim w)\<lparr>auth := Some a\<rparr>\<rparr>
        in case call_getClient e a w1 of
             (Inl err, w2) \<Rightarrow> (Inl (new_Error AUTH_INIT_FAILED), w2)
           | (Inr c, w2) \<Rightarrow>
               let w3 = w2\<lparr>wim := (wim w2)\<lparr>client := Some c, initialized := True\<rparr>\<rparr>
               in (case testAuthentication e w3 of
                     (Inl err, w4) \<Rightarrow> (Inl (new_Error AUTH_INIT_FAILED), w4)
                   | (Inr u, w4) \<Rightarrow> (Inr (), w4)))"

definition getAuthenticatedClient :: "env \<Rightarrow> world \<Rightarrow> (auth_client option) outcome" where
  "getAuthenticatedClient e w =
     (if \<not> initialized (wim w) then (Inl (new_Error NOT_INITIALIZED), w)
      else (Inr (client (wim w)), w))"

definition getProjectId :: "env \<Rightarrow> world \<Rightarrow> string outcome" where
  "getProjectId e w =
     (if \<not> initialized (wim w) then (Inl (new_Error NOT_INITIALIZED), w)
      else case auth (wim w) of
             None \<Rightarrow> (Inl (TypeError ''null'' ''getProjectId''), w)
           | Some a \<Rightarrow> call_getProjectId e w)"

definition isAuthenticated :: "world \<Rightarrow> bool" where
  "isAuthenticated w = (initialized (wim w) \<and> client (wim w) \<noteq> None)"

text \<open>
  \<open>refreshAuthentication\<close>: the two assignments to \<open>this\<close>, then the statement
  \<open>tiis.auth = null\<close>, whose left-hand side starts with an identifier that no scope
  declares, then \<open>initialize()\<close>. Any error inside is replaced by the refresh error.
\<close>

definition tiis :: "js_error + unit" where
  "tiis = Inl (ReferenceError ''tiis'')"

definition refreshAuthentication :: "env \<Rightarrow> world \<Rightarrow> unit outcome" where
  "refreshAuthentication e w =
     (let w1 = w\<lparr>wim := (wim w)\<lparr>initialized := False\<rparr>\<rparr>;
          w2 = w1\<lparr>wim := (wim w1)\<lparr>client := None\<rparr>\<rparr>
      in case tiis of
           Inl err \<Rightarrow> (Inl (new_Error REFRESH_FAILED), w2)
         | Inr u \<Rightarrow>
             (case initialize e w2 of
                (Inl err, w3) \<Rightarrow> (Inl (new_Error REFRESH_FAILED), w3)
              | (Inr v, w3) \<Rightarrow> (Inr (), w3)))"

section \<open>Transcription (\<open>GoogleSTTService\<close>)\<close>

definition STT_INIT_FAILED :: string where
  "STT_INIT_FAILED =
    [CHR 0x53, CHR 0x54, CHR 0x54, CHR 0xE3, CHR 0x82, CHR 0xB5, CHR 0xE3, CHR 0x83, CHR
     0xBC, CHR 0xE3, CHR 0x83, CHR 0x93, CHR 0xE3, CHR 0x82, CHR 0xB9, CHR 0xE3, CHR 0x81,
     CHR 0xAE, CHR 0xE5, CHR 0x88, CHR 0x9D, CHR 0xE6, CHR 0x9C, CHR 0x9F, CHR 0xE5, CHR
     0x8C, CHR 0x96, CHR 0xE3, CHR 0x81, CHR 0xAB, CHR 0xE5, CHR 0xA4, CHR 0xB1, CHR 0xE6,
     CHR 0x95, CHR 0x97, CHR 0xE3, CHR 0x81, CHR 0x97, CHR 0xE3, CHR 0x81, CHR 0xBE, CHR
     0xE3, CHR 0x81, CHR 0x97, CHR 0xE3, CHR 0x81, CHR 0x9F]"

definition GoogleSTTService_initialize :: "env \<Rightarrow> world \<Rightarrow> unit outcome" where
  "GoogleSTTService_initialize e w =
     (case initialize e w of
        (Inl err, w1) \<Rightarrow> (Inl (new_Error STT_INIT_FAILED), w1)
      | (Inr u, w1) \<Rightarrow>
          (case getAuthenticatedClient e w1 of
             (Inl err, w2) \<Rightarrow> (Inl (new_Error STT_INIT_FAILED), w2)
           | (Inr authClient, w2) \<Rightarrow>
               (case getProjectId e w2 of
                  (Inl err, w3) \<Rightarrow> (Inl (new_Error STT_INIT_FAILED), w3)
                | (Inr projectId, w3) \<Rightarrow>
                    (Inr (), w3\<lparr>svc := (svc w3)\<lparr>speechClient := Some (SpeechClient projectId authClient),
                                               stt_initialized := True\<rparr>\<rparr>))))"

record options =
  clientId :: "string option"
  sampleRate :: "nat option"
  opt_languageCode :: "string option"

record alternative_summary =
  as_transcript :: "string option"
  as_confidence :: real

record word_detail =
  wd_word :: string
  wd_startTime :: real
  wd_endTime :: real
  wd_confidence :: real

record debug_info =
  totalResults :: nat
  dbg_encoding :: js_value
  dbg_sampleRate :: nat
  audioSize :: nat

record recognition_result =
  success :: bool
  transcription :: string
  confidence :: real
  processingTime :: int
  alternatives :: "alternative_summary list"
  wordDetails :: "word_detail list"
  debug :: "debug_info option"
  chunks :: "nat option"

text \<open>Confidences and time offsets are JavaScript numbers; the model computes with reals.\<close>

definition or_zero :: "real option \<Rightarrow> real" where
  "or_zero x = (case x of None \<Rightarrow> 0 | Some c \<Rightarrow> c)"

definition offset_seconds :: "duration option \<Rightarrow> real" where
  "offset_seconds t =
     (case t of
        None \<Rightarrow> 0
      | Some d \<Rightarrow>
          real_of_int (case seconds d of None \<Rightarrow> 0 | Some s \<Rightarrow> s)
            + real_of_int (case nanos d of None \<Rightarrow> 0 | Some n \<Rightarrow> n) / 1000000000)"

definition build_config :: "string \<Rightarrow> options \<Rightarrow> recognition_config" where
  "build_config format opts =
     \<lparr> cfg_encoding = getEncodingConfig format,
       cfg_sampleRateHertz =
         (case sampleRate opts of
            None \<Rightarrow> sampleRateHertz speechConfig
          | Some r \<Rightarrow> if r = 0 then sampleRateHertz speechConfig else r),
       cfg_languageCode = or_string (opt_languageCode opts) (languageCode speechConfig),
       cfg_alternativeLanguageCodes = alternativeLanguageCodes speechConfig,
       cfg_enableAutomaticPunctuation = enableAutomaticPunctuation speechConfig,
       cfg_enableWordTimeOffsets = enableWordTimeOffsets speechConfig,
       cfg_enableWordConfidence = enableWordConfidence speechConfig,
       cfg_model = model speechConfig,
       cfg_useEnhanced = useEnhanced speechConfig,
       audioChannelCount = 1,
       enableSeparateRecognitionPerChannel = False,
       profanityFilter = False,
       enableSpokenPunctuation = True,
       enableSpokenEmojis = False \<rparr>"

text \<open>The part of \<open>transcribeAudio\<close> after the recognizer has answered.\<close>

definition process_response ::
  "recognize_response \<Rightarrow> recognition_config \<Rightarrow> nat \<Rightarrow> int \<Rightarrow> js_error + recognition_result" where
  "process_response response cfg n elapsed =
     (case results response of
        None \<Rightarrow>
          Inr \<lparr> success = True, transcription = [], confidence = 0, processingTime = elapsed,
                alternatives = [], wordDetails = [], debug = None, chunks = None \<rparr>
      | Some [] \<Rightarrow>
          Inr \<lparr> success = True, transcription = [], confidence = 0, processingTime = elapsed,
                alternatives = [], wordDetails = [], debug = None, chunks = None \<rparr>
      | Some (bestResult # others) \<Rightarrow>
          (case result_alternatives bestResult of
             [] \<Rightarrow> Inl (TypeError ''undefined'' ''words'')
           | bestAlternative # rest \<Rightarrow>
               Inr \<lparr> success = True,
                     transcription = or_string (alt_transcript bestAlternative) [],
                     confidence = or_zero (alt_confidence bestAlternative),
                     processingTime = elapsed,
                     alternatives =
                       map (\<lambda>alt. \<lparr> as_transcript = alt_transcript alt,
                                    as_confidence = or_zero (alt_confidence alt) \<rparr>)
                           (take 2 (drop 1 (result_alternatives bestResult))),
                     wordDetails =
                       (case alt_words bestAlternative of
                          None \<Rightarrow> []
                        | Some ws \<Rightarrow>
                            map (\<lambda>w. \<lparr> wd_word = wi_word w,
                                        wd_startTime = offset_seconds (wi_startTime w),
                                        wd_endTime = offset_seconds (wi_endTime w),
                                        wd_confidence = or_zero (wi_confidence w) \<rparr>) ws),
                     debug = Some \<lparr> totalResults = Suc (length others),
                                     dbg_encoding = cfg_encoding cfg,
                                     dbg_sampleRate = cfg_sampleRateHertz cfg,
                                     audioSize = n \<rparr>,
                     chunks = None \<rparr>))"

text \<open>The lazy initialisation at the head of \<open>transcribeAudio\<close>.\<close>

definition ensure_initialized :: "env \<Rightarrow> world \<Rightarrow> unit outcome" where
  "ensure_initialized e w =
     (if \<not> stt_initialized (svc w) then GoogleSTTService_initialize e w else (Inr (), w))"

text \<open>The \<open>try\<close> block of \<open>transcribeAudio\<close>.\<close>

definition transcribeAudio_try ::
  "env \<Rightarrow> buffer \<Rightarrow> string \<Rightarrow> options \<Rightarrow> world \<Rightarrow> recognition_result outcome" where
  "transcribeAudio_try e audioBuffer format opts w =
     (case ensure_initialized e w of
        (Inl err, w1) \<Rightarrow> (Inl err, w1)
      | (Inr u, w1) \<Rightarrow>
          (case read_clock e w1 of (startTime, w2) \<Rightarrow>
             (case validateAudioFile audioBuffer format of
                Inl err \<Rightarrow> (Inl err, w2)
              | Inr ok \<Rightarrow>
                  (case read_clock e w2 of (now, w3) \<Rightarrow>
                     (case checkRateLimit (requestCount (svc w3)) (or_string (clientId opts) ''default'') now of
                        Inl err \<Rightarrow> (Inl err, w3)
                      | Inr rc \<Rightarrow>
                          let w4 = w3\<lparr>svc := (svc w3)\<lparr>requestCount := rc\<rparr>\<rparr>;
                              cfg = build_config format opts;
                              request = \<lparr> config = cfg, audio_content = audioBuffer \<rparr>
                          in (case speechClient (svc w4) of
                                None \<Rightarrow> (Inl (TypeError ''null'' ''recognize''), w4)
                              | Some sc \<Rightarrow>
                                  (case call_recognize e request w4 of
                                     (Inl err, w5) \<Rightarrow> (Inl err, w5)
                                   | (Inr response, w5) \<Rightarrow>
                                       (case read_clock e w5 of (endTime, w6) \<Rightarrow>
                                          (process_response response cfg (length audioBuffer)
                                             (endTime - startTime), w6)))))))))"

text \<open>The \<open>catch\<close> block of \<open>transcribeAudio\<close>: every error is replaced.\<close>

definition classify_error :: "js_error \<Rightarrow> js_error" where
  "classify_error error =
     (if code error = Some 3 then new_Error errorMessages_UNSUPPORTED_FORMAT
      else if code error = Some 8 then new_Error errorMessages_RATE_LIMIT_EXCEEDED
      else if code error = Some 16 then new_Error errorMessages_AUTHENTICATION_FAILED
      else if includes_str (message error) ''rate limit'' \<or> includes_str (message error) ''quota''
        then new_Error errorMessages_RATE_LIMIT_EXCEEDED
      else new_Error (errorMessages_TRANSCRIPTION_FAILED @ '': '' @ message error))"

definition transcribeAudio ::
  "env \<Rightarrow> buffer \<Rightarrow> string \<Rightarrow> options \<Rightarrow> world \<Rightarrow> recognition_result outcome" where
  "transcribeAudio e audioBuffer format opts w =
     (case transcribeAudio_try e audioBuffer format opts w of
        (Inl error, w1) \<Rightarrow> (Inl (classify_error error), w1)
      | (Inr result, w1) \<Rightarrow> (Inr result, w1))"

subsection \<open>Long audio\<close>

definition maxChunkSize :: nat where
  "maxChunkSize = 4 * 1024 * 1024"

text \<open>\<open>Buffer.slice(start, end)\<close> for \<open>0 \<le> start \<le> end\<close>; the end is clamped to the length.\<close>

definition slice :: "buffer \<Rightarrow> nat \<Rightarrow> nat \<Rightarrow> buffer" where
  "slice b i j = take (j - i) (drop i b)"

function splitChunks :: "nat \<Rightarrow> buffer \<Rightarrow> buffer list" where
  "splitChunks i audioBuffer =
     (if i < length audioBuffer
        then slice audioBuffer i (i + maxChunkSize) # splitChunks (i + maxChunkSize) audioBuffer
      else [])"
  by pat_completeness auto
termination
  by (relation "measure (\<lambda>(i, b). length b - i)") (auto simp: maxChunkSize_def)

declare splitChunks.simps [simp del]

definition chunk_options :: "options \<Rightarrow> nat \<Rightarrow> options" where
  "chunk_options opts i =
     opts\<lparr>clientId := Some (or_string (clientId opts) ''default'' @ ''_chunk_'' @ string_of_nat i)\<rparr>"

text \<open>
  The loop over the chunks: \<open>results\<close> and \<open>totalProcessingTime\<close> are the two accumulators of the source,
  and the pacing delay is taken after every chunk but the last.
\<close>

function chunk_loop ::
  "env \<Rightarrow> buffer list \<Rightarrow> string \<Rightarrow> options \<Rightarrow> nat \<Rightarrow> recognition_result list \<Rightarrow> int \<Rightarrow> world
     \<Rightarrow> (recognition_result list \<times> int) outcome" where
  "chunk_loop e cs format opts i rs totalProcessingTime w =
     (if i < length cs then
        (case transcribeAudio e (cs ! i) format (chunk_options opts i) w of
           (Inl err, w1) \<Rightarrow> (Inl err, w1)
         | (Inr chunkResult, w1) \<Rightarrow>
             chunk_loop e cs format opts (i + 1) (rs @ [chunkResult])
               (totalProcessingTime + processingTime chunkResult)
               (if i < length cs - 1 then sleep 1000 w1 else w1))
      else (Inr (rs, totalProcessingTime), w))"
  by pat_completeness auto
termination
  by (relation "measure (\<lambda>(e, cs, format, opts, i, rs, t, w). length cs - i)") auto

declare chunk_loop.simps [simp del]

definition merge_results :: "recognition_result list \<Rightarrow> int \<Rightarrow> recognition_result" where
  "merge_results rs totalProcessingTime =
     \<lparr> success = True,
       transcription = join '' '' (filter (\<lambda>t. length t > 0) (map transcription rs)),
       confidence =
         (if length rs > 0 then foldl (\<lambda>sum r. sum + confidence r) 0 rs / real (length rs) else 0),
       processingTime = totalProcessingTime,
       alternatives = [],
       wordDetails = [],
       debug = None,
       chunks = Some (length rs) \<rparr>"

definition transcribeLongAudio ::
  "env \<Rightarrow> buffer \<Rightarrow> string \<Rightarrow> options \<Rightarrow> world \<Rightarrow> recognition_result outcome" where
  "transcribeLongAudio e audioBuffer format opts w =
     (if length audioBuffer \<le> maxChunkSize then transcribeAudio e audioBuffer format opts w
      else
        (case chunk_loop e (splitChunks 0 audioBuffer) format opts 0 [] 0 w of
           (Inl error, w1) \<Rightarrow> (Inl error, w1)
         | (Inr (rs, t), w1) \<Rightarrow> (Inr (merge_results rs t), w1)))"

section \<open>Credential manager, older copy (\<open>backend/auth/workload-identity-setup.js\<close>)\<close>

text \<open>
  The repository holds a second, older copy of the manager. There \<open>initialize\<close> has no
  early return and sets \<open>initialized\<close> after the probe, and each accessor calls
  \<open>initialize\<close> itself when the flag is unset. So \<open>initialize\<close>, its probe and
  \<open>getAccessToken\<close> call each other; the model bounds the depth of that recursion by a
  fuel argument, and \<open>None\<close> means the fuel ran out before the call returned.
\<close>

definition CLIENT_FAILED :: string where
  "CLIENT_FAILED =
    [CHR 0xE8, CHR 0xAA, CHR 0x8D, CHR 0xE8, CHR 0xA8, CHR 0xBC, CHR 0xE6, CHR 0xB8, CHR
     0x88, CHR 0xE3, CHR 0x81, CHR 0xBF, CHR 0xE3, CHR 0x82, CHR 0xAF, CHR 0xE3, CHR 0x83,
     CHR 0xA9, CHR 0xE3, CHR 0x82, CHR 0xA4, CHR 0xE3, CHR 0x82, CHR 0xA2, CHR 0xE3, CHR
     0x83, CHR 0xB3, CHR 0xE3, CHR 0x83, CHR 0x88, CHR 0xE3, CHR 0x81, CHR 0xAE, CHR 0xE5,
     CHR 0x8F, CHR 0x96, CHR 0xE5, CHR 0xBE, CHR 0x97, CHR 0xE3, CHR 0x81, CHR 0xAB, CHR
     0xE5, CHR 0xA4, CHR 0xB1, CHR 0xE6, CHR 0x95, CHR 0x97, CHR 0xE3, CHR 0x81, CHR 0x97,
     CHR 0xE3, CHR 0x81, CHR 0xBE, CHR 0xE3, CHR 0x81, CHR 0x97, CHR 0xE3, CHR 0x81, CHR 0x9F]"

definition PROJECT_ID_FAILED :: string where
  "PROJECT_ID_FAILED =
    [CHR 0xE3, CHR 0x83, CHR 0x97, CHR 0xE3, CHR 0x83, CHR 0xAD, CHR 0xE3, CHR 0x82, CHR
     0xB8, CHR 0xE3, CHR 0x82, CHR 0xA7, CHR 0xE3, CHR 0x82, CHR 0xAF, CHR 0xE3, CHR 0x83,
     CHR 0x88, CHR 0x49, CHR 0x44, CHR 0xE3, CHR 0x81, CHR 0xAE, CHR 0xE5, CHR 0x8F, CHR
     0x96, CHR 0xE5, CHR 0xBE, CHR 0x97, CHR 0xE3, CHR 0x81, CHR 0xAB, CHR 0xE5, CHR 0xA4,
     CHR 0xB1, CHR 0xE6, CHR 0x95, CHR 0x97, CHR 0xE3, CHR 0x81, CHR 0x97, CHR 0xE3, CHR
     0x81, CHR 0xBE, CHR 0xE3, CHR 0x81, CHR 0x97, CHR 0xE3, CHR 0x81, CHR 0x9F]"

fun initialize_old :: "nat \<Rightarrow> env \<Rightarrow> world \<Rightarrow> (unit outcome) option"
  and testAuthentication_old :: "nat \<Rightarrow> env \<Rightarrow> world \<Rightarrow> (unit outcome) option"
  and getAccessToken_old :: "nat \<Rightarrow> env \<Rightarrow> world \<Rightarrow> ((string option) outcome) option"
where
  "initialize_old 0 e w = None"
| "initialize_old (Suc n) e w =
     (case call_getClient e (new_GoogleAuth e) (w\<lparr>wim := (wim w)\<lparr>auth := Some (new_GoogleAuth e)\<rparr>\<rparr>) of
        (Inl err, w2) \<Rightarrow> Some (Inl (new_Error AUTH_INIT_FAILED), w2)
      | (Inr c, w2) \<Rightarrow>
          (case testAuthentication_old n e (w2\<lparr>wim := (wim w2)\<lparr>client := Some c\<rparr>\<rparr>) of
             None \<Rightarrow> None
           | Some (Inl err, w4) \<Rightarrow> Some (Inl (new_Error AUTH_INIT_FAILED), w4)
           | Some (Inr u, w4) \<Rightarrow> Some (Inr (), w4\<lparr>wim := (wim w4)\<lparr>initialized := True\<rparr>\<rparr>)))"
| "testAuthentication_old 0 e w = None"
| "testAuthentication_old (Suc n) e w =
     (case auth (wim w) of
        None \<Rightarrow> Some (Inl (TypeError ''null'' ''getProjectId''), w)
      | Some a \<Rightarrow>
          (case call_getProjectId e w of
             (Inl err, w1) \<Rightarrow> Some (Inl err, w1)
           | (Inr projectId, w1) \<Rightarrow>
               (case getAccessToken_old n e w1 of
                  None \<Rightarrow> None
                | Some (Inl err, w2) \<Rightarrow> Some (Inl err, w2)
                | Some (Inr accessToken, w2) \<Rightarrow>
                    if \<not> string_truthy accessToken
                      then Some (Inl (new_Error ''Failed to get access token''), w2)
                    else Some (Inr (), w2))))"
| "getAccessToken_old 0 e w = None"
| "getAccessToken_old (Suc n) e w =
     (case (if \<not> initialized (wim w) then initialize_old n e w else Some (Inr (), w)) of
        None \<Rightarrow> None
      | Some (Inl err, w1) \<Rightarrow> Some (Inl (new_Error ACCESS_TOKEN_FAILED), w1)
      | Some (Inr u, w1) \<Rightarrow>
          (case client (wim w1) of
             None \<Rightarrow> Some (Inl (new_Error ACCESS_TOKEN_FAILED), w1)
           | Some c \<Rightarrow>
               (case call_getAccessToken e w1 of
                  (Inl err, w2) \<Rightarrow> Some (Inl (new_Error ACCESS_TOKEN_FAILED), w2)
                | (Inr token, w2) \<Rightarrow> Some (Inr token, w2))))"

definition getAuthenticatedClient_old ::
  "nat \<Rightarrow> env \<Rightarrow> world \<Rightarrow> ((auth_client option) outcome) option" where
  "getAuthenticatedClient_old n e w =
     (case (if \<not> initialized (wim w) then initialize_old n e w else Some (Inr (), w)) of
        None \<Rightarrow> None
      | Some (Inl err, w1) \<Rightarrow> Some (Inl (new_Error CLIENT_FAILED), w1)
      | Some (Inr u, w1) \<Rightarrow> Some (Inr (client (wim w1)), w1))"

definition getProjectId_old :: "nat \<Rightarrow> env \<Rightarrow> world \<Rightarrow> (string outcome) option" where
  "getProjectId_old n e w =
     (case (if \<not> initialized (wim w) then initialize_old n e w else Some (Inr (), w)) of
        None \<Rightarrow> None
      | Some (Inl err, w1) \<Rightarrow> Some (Inl (new_Error PROJECT_ID_FAILED), w1)
      | Some (Inr u, w1) \<Rightarrow>
          (case auth (wim w1) of
             None \<Rightarrow> Some (Inl (new_Error PROJECT_ID_FAILED), w1)
           | Some a \<Rightarrow>
               (case call_getProjectId e w1 of
                  (Inl err, w2) \<Rightarrow> Some (Inl (new_Error PROJECT_ID_FAILED), w2)
                | (Inr projectId, w2) \<Rightarrow> Some (Inr projectId, w2))))"

definition refreshAuthentication_old :: "nat \<Rightarrow> env \<Rightarrow> world \<Rightarrow> (unit outcome) option" where
  "refreshAuthentication_old n e w =
     (case initialize_old n e (w\<lparr>wim := (wim w)\<lparr>initialized := False, client := None\<rparr>\<rparr>) of
        None \<Rightarrow> None
      | Some (Inl err, w1) \<Rightarrow> Some (Inl (new_Error REFRESH_FAILED), w1)
      | Some (Inr u, w1) \<Rightarrow> Some (Inr (), w1))"

section \<open>Concrete environments and states used as test inputs\<close>

text \<open>
  A healthy environment: every collaborator answers, the recognizer always returns one
  result with two alternatives, and the clock advances by five milliseconds per reading.
\<close>

definition sample_response :: recognize_response where
  "sample_response =
     \<lparr> results = Some [\<lparr> result_alternatives =
         [\<lparr> alt_transcript = Some ''hello'', alt_confidence = Some (1/2),
            alt_words = Some [\<lparr> wi_word = ''hello'',
                                  wi_startTime = Some \<lparr> seconds = Some 0, nanos = Some 500000000 \<rparr>,
                                  wi_endTime = Some \<lparr> seconds = Some 1, nanos = None \<rparr>,
                                  wi_confidence = None \<rparr>] \<rparr>,
          \<lparr> alt_transcript = Some ''hallo'', alt_confidence = Some (1/4), alt_words = None \<rparr>] \<rparr>] \<rparr>"

definition env_healthy :: env where
  "env_healthy =
     \<lparr> GITHUB_ACTIONS = Some ''true'',
       GOOGLE_APPLICATION_CREDENTIALS = None,
       GOOGLE_CLOUD_PROJECT_ID = Some ''demo-project'',
       auth_getClient = (\<lambda>n. Inr (AuthClient n)),
       auth_getProjectId = (\<lambda>n. Inr ''demo-project''),
       client_getAccessToken = (\<lambda>n. Inr (Some ''token'')),
       speechClient_recognize = (\<lambda>n req. Inr sample_response),
       Date_now = (\<lambda>n. 5 * int n) \<rparr>"

text \<open>The auth client is obtained, but the project id cannot be fetched.\<close>

definition env_probe_fails :: env where
  "env_probe_fails = env_healthy\<lparr>auth_getProjectId := (\<lambda>n. Inl (JsError ''metadata server unreachable'' None))\<rparr>"

text \<open>The same, but only the first attempt to fetch the project id fails.\<close>

definition env_probe_fails_once :: env where
  "env_probe_fails_once =
     env_healthy\<lparr>auth_getProjectId :=
       (\<lambda>n. if n = 1 then Inl (JsError ''metadata server unreachable'' None)
             else Inr ''demo-project'')\<rparr>"

text \<open>
  The world the revised \<open>initialize\<close> leaves behind when it is called on a new manager
  and the probe fails at the project id.
\<close>

definition probe_failed_world :: world where
  "probe_failed_world =
     new_world\<lparr>wim := \<lparr> auth = Some (new_GoogleAuth env_probe_fails),
                              client = Some (AuthClient 0), initialized = True \<rparr>,
               trace := [GetClient (new_GoogleAuth env_probe_fails), GetProjectId]\<rparr>"

text \<open>The auth client itself cannot be obtained.\<close>

definition env_no_client :: env where
  "env_no_client = env_healthy\<lparr>auth_getClient := (\<lambda>n. Inl (JsError ''could not load credentials'' None))\<rparr>"

text \<open>The recognizer answers with no results at all.\<close>

definition env_silence :: env where
  "env_silence = env_healthy\<lparr>speechClient_recognize := (\<lambda>n req. Inr \<lparr> results = Some [] \<rparr>)\<rparr>"

text \<open>A world in which the transcription service has been initialised.\<close>

definition ready_world :: world where
  "ready_world =
     \<lparr> wim = \<lparr> auth = Some (new_GoogleAuth env_healthy), client = Some (AuthClient 0),
               initialized = True \<rparr>,
       svc = \<lparr> speechClient = Some (SpeechClient ''demo-project'' (Some (AuthClient 0))),
               stt_initialized = True, requestCount = Map.empty \<rparr>,
       trace = [], ticks = 0 \<rparr>"

definition no_options :: options where
  "no_options = \<lparr> clientId = None, sampleRate = None, opt_languageCode = None \<rparr>"

section \<open>Observations on traces\<close>

text \<open>The requests sent to the remote recognizer, in order.\<close>

fun recognizer_calls :: "event list \<Rightarrow> recognize_request list" where
  "recognizer_calls [] = []"
| "recognizer_calls (Recognize req # es) = req # recognizer_calls es"
| "recognizer_calls (ev # es) = recognizer_calls es"

text \<open>The recognizer calls and the pacing delays, in order, without the credential calls.\<close>

fun chunk_events :: "event list \<Rightarrow> event list" where
  "chunk_events [] = []"
| "chunk_events (Recognize req # es) = Recognize req # chunk_events es"
| "chunk_events (Sleep ms # es) = Sleep ms # chunk_events es"
| "chunk_events (ev # es) = chunk_events es"

text \<open>
  A ready world in which the caller \<open>default\<close> has used up its sixty requests of the
  current minute.
\<close>

definition busy_world :: world where
  "busy_world =
     ready_world\<lparr>svc := (svc ready_world)\<lparr>requestCount := [''default'' \<mapsto> replicate 60 0]\<rparr>\<rparr>"

text \<open>A buffer one byte above the configured maximum file size.\<close>

definition oversized_buffer :: buffer where
  "oversized_buffer = replicate (10 * 1024 * 1024 + 1) 0"

text \<open>A buffer of exactly four chunks, and what the healthy recognizer yields for each chunk.\<close>

definition four_chunk_buffer :: buffer where
  "four_chunk_buffer = replicate (4 * maxChunkSize) 0"

definition chunk_result :: recognition_result where
  "chunk_result =
     \<lparr> success = True, transcription = ''hello'', confidence = 1/2, processingTime = 10,
       alternatives = [\<lparr> as_transcript = Some ''hallo'', as_confidence = 1/4 \<rparr>],
       wordDetails = [\<lparr> wd_word = ''hello'', wd_startTime = 1/2, wd_endTime = 1, wd_confidence = 0 \<rparr>],
       debug = Some \<lparr> totalResults = 1, dbg_encoding = Str ''WEBM_OPUS'', dbg_sampleRate = 16000,
                       audioSize = maxChunkSize \<rparr>,
       chunks = None \<rparr>"

text \<open>The request built for chunk \<open>i\<close> of a buffer.\<close>

definition chunk_request :: "buffer \<Rightarrow> string \<Rightarrow> options \<Rightarrow> nat \<Rightarrow> recognize_request" where
  "chunk_request buf fmt opts i =
     \<lparr> config = build_config fmt (chunk_options opts i),
       audio_content = slice buf (i * maxChunkSize) (i * maxChunkSize + maxChunkSize) \<rparr>"

text \<open>The four chunk calls of the healthy scenario, each from the world the previous one left.\<close>

definition healthy_w0 :: world where
  "healthy_w0 = snd (transcribeAudio env_healthy (slice four_chunk_buffer 0 maxChunkSize) ''webm''
                       (chunk_options no_options 0) ready_world)"

definition healthy_w1 :: world where
  "healthy_w1 = snd (transcribeAudio env_healthy (slice four_chunk_buffer maxChunkSize (2 * maxChunkSize))
                       ''webm'' (chunk_options no_options 1) (sleep 1000 healthy_w0))"

definition healthy_w2 :: world where
  "healthy_w2 = snd (transcribeAudio env_healthy (slice four_chunk_buffer (2 * maxChunkSize) (3 * maxChunkSize))
                       ''webm'' (chunk_options no_options 2) (sleep 1000 healthy_w1))"

definition healthy_w3 :: world where
  "healthy_w3 = snd (transcribeAudio env_healthy (slice four_chunk_buffer (3 * maxChunkSize) (4 * maxChunkSize))
                       ''webm'' (chunk_options no_options 3) (sleep 1000 healthy_w2))"

section \<open>An invariant of the stored rate-limit state\<close>

text \<open>No caller has more than sixty stored timestamps.\<close>

definition bounded_history :: "request_map \<Rightarrow> bool" where
  "bounded_history rc = (\<forall>c ts. rc c = Some ts \<longrightarrow> length ts \<le> 60)"

section \<open>A caller's successive rate-limit checks\<close>

text \<open>
  \<open>replay\<close> runs \<open>checkRateLimit\<close> for one caller at the given clock readings, in
  order, and reports which calls were accepted; a rejected call leaves the state as it
  was. \<open>every_three_seconds k n\<close> are the readings of \<open>n\<close> calls three seconds apart,
  starting with call number \<open>k\<close>, and \<open>stored_after k\<close> is what the limiter holds for
  the caller after the first \<open>k\<close> of them.
\<close>

fun replay :: "request_map \<Rightarrow> string \<Rightarrow> int list \<Rightarrow> bool list \<times> request_map" where
  "replay rc c [] = ([], rc)"
| "replay rc c (t # ts) =
     (case checkRateLimit rc c t of
        Inl err \<Rightarrow> (case replay rc c ts of (bs, rc') \<Rightarrow> (False # bs, rc'))
      | Inr rc1 \<Rightarrow> (case replay rc1 c ts of (bs, rc') \<Rightarrow> (True # bs, rc')))"

definition every_three_seconds :: "nat \<Rightarrow> nat \<Rightarrow> int list" where
  "every_three_seconds k n = map (\<lambda>j. 3000 * int j) [k..<k + n]"

definition stored_after :: "nat \<Rightarrow> int list" where
  "stored_after k = map (\<lambda>j. 3000 * int j) [k - 20..<k]"

section \<open>Format handling\<close>

lemmas lower_defs = toLowerCase_def lower_char_def upper_letters_def lower_letters_def

lemma lower_char_not_upper: "lower_char c \<notin> set upper_letters"
  by (auto simp: lower_char_def upper_letters_def lower_letters_def split: option.splits if_splits)

lemma toLowerCase_no_upper: "c \<in> set upper_letters \<Longrightarrow> c \<notin> set (toLowerCase s)"
  using lower_char_not_upper by (auto simp: toLowerCase_def)

lemma getEncodingConfig_known:
  "getEncodingConfig ''webm'' = Str ''WEBM_OPUS''"
  "getEncodingConfig ''wav'' = Str ''LINEAR16''"
  "getEncodingConfig ''mp3'' = Str ''MP3''"
  "getEncodingConfig ''ogg'' = Str ''OGG_OPUS''"
  "getEncodingConfig ''flac'' = Str ''WEBM_OPUS''"
  by (simp_all add: getEncodingConfig_def get_property_def formatMap_def Object_prototype_def lower_defs)

text \<open>
  A lower-cased key can only meet the two inherited properties whose names have no capital
  letter.
\<close>

lemma inherited_lower_keys:
  assumes "map_of Object_prototype (toLowerCase f) = Some v"
  shows "toLowerCase f = ''constructor'' \<or> toLowerCase f = ''__proto__''"
proof -
  have up: "\<And>c. c \<in> set upper_letters \<Longrightarrow> c \<notin> set (toLowerCase f)"
    by (rule toLowerCase_no_upper)
  have "toLowerCase f \<noteq> ''hasOwnProperty''"
    using up[of "CHR ''O''"] by (auto simp: upper_letters_def)
  moreover have "toLowerCase f \<noteq> ''isPrototypeOf''"
    using up[of "CHR ''P''"] by (auto simp: upper_letters_def)
  moreover have "toLowerCase f \<noteq> ''propertyIsEnumerable''"
    using up[of "CHR ''I''"] by (auto simp: upper_letters_def)
  moreover have "toLowerCase f \<noteq> ''toLocaleString''"
    using up[of "CHR ''L''"] by (auto simp: upper_letters_def)
  moreover have "toLowerCase f \<noteq> ''toString''"
    using up[of "CHR ''S''"] by (auto simp: upper_letters_def)
  moreover have "toLowerCase f \<noteq> ''valueOf''"
    using up[of "CHR ''O''"] by (auto simp: upper_letters_def)
  moreover have "toLowerCase f \<noteq> ''__defineGetter__''"
    using up[of "CHR ''G''"] by (auto simp: upper_letters_def)
  moreover have "toLowerCase f \<noteq> ''__defineSetter__''"
    using up[of "CHR ''S''"] by (auto simp: upper_letters_def)
  moreover have "toLowerCase f \<noteq> ''__lookupGetter__''"
    using up[of "CHR ''G''"] by (auto simp: upper_letters_def)
  moreover have "toLowerCase f \<noteq> ''__lookupSetter__''"
    using up[of "CHR ''S''"] by (auto simp: upper_letters_def)
  ultimately show ?thesis using assms
    by (simp add: Object_prototype_def split: if_splits)
qed

text \<open>
  Every format that lower-cases to none of the four table keys and to neither
  \<open>constructor\<close> nor \<open>__proto__\<close> falls back to \<open>WEBM_OPUS\<close>.
\<close>

lemma getEncodingConfig_default:
  assumes "toLowerCase f \<notin> {''webm'', ''wav'', ''mp3'', ''ogg'', ''constructor'', ''__proto__''}"
  shows "getEncodingConfig f = Str ''WEBM_OPUS''"
proof -
  have own: "map_of formatMap (toLowerCase f) = None"
    using assms by (simp add: formatMap_def)
  have inh: "map_of Object_prototype (toLowerCase f) = None"
  proof (cases "map_of Object_prototype (toLowerCase f)")
    case (Some v)
    from inherited_lower_keys[OF this] assms show ?thesis by simp
  qed simp
  show ?thesis by (simp add: getEncodingConfig_def get_property_def own inh)
qed

text \<open>
  C7. The claim: the lookup maps the four known formats to their encodings and every other
  input string to \<open>WEBM_OPUS\<close>. The four mappings and the fallback for \<open>flac\<close> hold
  (\<open>getEncodingConfig_known\<close>, \<open>getEncodingConfig_default\<close>), but the table is a plain
  object literal, so the format \<open>constructor\<close> reads the inherited property of that name:
  the lookup returns the built-in \<open>Object\<close> function, which is truthy, and the fallback
  is not taken.
\<close>

theorem getEncodingConfig_constructor:
  "getEncodingConfig ''constructor'' = Function ''Object'' \<and>
   getEncodingConfig ''constructor'' \<noteq> Str ''WEBM_OPUS''"
  by (simp add: getEncodingConfig_def get_property_def formatMap_def Object_prototype_def lower_defs)

text \<open>
  C10. Validation and encoding lookup both lower-case the declared format first: two formats
  that differ only in case are validated alike and map to the same encoding; for instance
  \<open>WAV\<close> passes validation (for a buffer within the limits) and maps to \<open>LINEAR16\<close>.
\<close>

theorem format_case_insensitive:
  "(toLowerCase f = toLowerCase g \<longrightarrow>
      validateAudioFile b f = validateAudioFile b g \<and> getEncodingConfig f = getEncodingConfig g)
   \<and> (length b \<le> 9600000 \<longrightarrow> validateAudioFile b ''WAV'' = Inr True)
   \<and> getEncodingConfig ''WAV'' = Str ''LINEAR16''"
proof (intro conjI impI)
  assume "toLowerCase f = toLowerCase g"
  then show "validateAudioFile b f = validateAudioFile b g"
    by (simp add: validateAudioFile_def)
next
  assume "toLowerCase f = toLowerCase g"
  then show "getEncodingConfig f = getEncodingConfig g"
    by (simp add: getEncodingConfig_def)
next
  assume "length b \<le> 9600000"
  then show "validateAudioFile b ''WAV'' = Inr True"
    by (simp add: validateAudioFile_def speechConfig_def lower_defs)
next
  show "getEncodingConfig ''WAV'' = Str ''LINEAR16''"
    by (simp add: getEncodingConfig_def get_property_def formatMap_def lower_defs)
qed

theorem format_case_insensitive_witness:
  "toLowerCase ''WAV'' = toLowerCase ''wav'' \<and> length [1, 2 :: 8 word] \<le> 9600000 \<and>
   validateAudioFile [1, 2] ''WAV'' = validateAudioFile [1, 2] ''wav'' \<and>
   validateAudioFile [1, 2] ''WAV'' = Inr True \<and>
   getEncodingConfig ''WAV'' = getEncodingConfig ''wav'' \<and>
   getEncodingConfig ''WAV'' = Str ''LINEAR16''"
proof -
  have eq: "toLowerCase ''WAV'' = toLowerCase ''wav''" by (simp add: lower_defs)
  have len: "length [1, 2 :: 8 word] \<le> 9600000" by simp
  from format_case_insensitive[of "''WAV''" "''wav''" "[1, 2]"] eq len show ?thesis by auto
qed

section \<open>Credential manager\<close>

lemmas manager_defs = initialize_def testAuthentication_def getAccessToken_def
  call_getClient_def call_getProjectId_def call_getAccessToken_def Let_def

lemmas env_defs = env_healthy_def env_probe_fails_def env_no_client_def env_silence_def

lemma initialize_healthy:
  "initialize env_healthy new_world =
     (Inr (), new_world\<lparr>wim := \<lparr> auth = Some (new_GoogleAuth env_healthy),
                                 client = Some (AuthClient 0), initialized = True \<rparr>,
                        trace := [GetClient (new_GoogleAuth env_healthy), GetProjectId, GetAccessToken]\<rparr>)"
  by (simp add: manager_defs env_defs new_world_def string_truthy_def)

text \<open>
  What a successful \<open>initialize\<close> on a manager with the flag unset guarantees, and what
  a failure to obtain the auth client leaves behind.
\<close>

lemma initialize_success_needs_probe:
  assumes "\<not> initialized (wim w)"
  shows "(\<forall>w'. initialize e w = (Inr (), w') \<longrightarrow>
            (\<exists>c p t. auth_getClient e (length (trace w)) = Inr c \<and>
                     auth_getProjectId e (length (trace w) + 1) = Inr p \<and>
                     client_getAccessToken e (length (trace w) + 2) = Inr (Some t) \<and> t \<noteq> [] \<and>
                     trace w' = trace w @ [GetClient (new_GoogleAuth e), GetProjectId, GetAccessToken] \<and>
                     client (wim w') = Some c \<and> initialized (wim w') \<and> isAuthenticated w'))
         \<and> (\<forall>err. auth_getClient e (length (trace w)) = Inl err \<longrightarrow>
              fst (initialize e w) = Inl (new_Error AUTH_INIT_FAILED) \<and>
              \<not> initialized (wim (snd (initialize e w))) \<and>
              \<not> isAuthenticated (snd (initialize e w)))"
  using assms
  by (auto simp: manager_defs isAuthenticated_def string_truthy_def
           split: sum.splits option.splits if_splits prod.splits)

text \<open>
  Once the auth client has been obtained, every failure of \<open>initialize\<close> leaves the flag
  set: the manager reports itself authenticated, and a second \<open>initialize\<close> returns
  at once, successfully, without any call to a collaborator.
\<close>

lemma failed_probe_always_ready:
  assumes "\<not> initialized (wim w)"
    and "auth_getClient e (length (trace w)) = Inr c"
    and "initialize e w = (Inl err, w')"
  shows "isAuthenticated w' \<and> initialize e w' = (Inr (), w')"
proof -
  have "initialized (wim w') \<and> client (wim w') = Some c"
    using assms
    by (auto simp: manager_defs string_truthy_def
             split: sum.splits option.splits if_splits prod.splits)
  then show ?thesis by (simp add: isAuthenticated_def initialize_def)
qed

lemma initialize_probe_fails:
  "initialize env_probe_fails new_world = (Inl (new_Error AUTH_INIT_FAILED), probe_failed_world)"
  by (simp add: manager_defs env_defs new_world_def probe_failed_world_def)

text \<open>
  C3. The claim: \<open>initialize\<close> makes the manager ready only after the liveness probe has
  succeeded, and a failed probe fails the operation and leaves the manager not ready, so
  that \<open>isAuthenticated\<close> is false afterwards. The revised manager sets the flag before
  the probe and its \<open>catch\<close> block never clears it: when the auth client is obtained but
  the project id cannot be fetched, \<open>initialize\<close> fails, \<open>isAuthenticated\<close> is true
  afterwards, and a retry of \<open>initialize\<close> succeeds without probing anything.
\<close>

theorem failed_probe_leaves_manager_ready:
  "initialize env_probe_fails new_world = (Inl (new_Error AUTH_INIT_FAILED), probe_failed_world) \<and>
   isAuthenticated probe_failed_world \<and>
   initialize env_probe_fails probe_failed_world = (Inr (), probe_failed_world)"
  by (simp add: initialize_probe_fails)
     (simp add: isAuthenticated_def initialize_def probe_failed_world_def)

text \<open>
  The guard of the three accessors: while the flag is unset each of them fails with the
  not-initialized error and leaves the world as it was.
\<close>

lemma accessors_fail_fast:
  assumes "\<not> initialized (wim w)"
  shows "getAccessToken e w = (Inl (new_Error NOT_INITIALIZED), w) \<and>
         getAuthenticatedClient e w = (Inl (new_Error NOT_INITIALIZED), w) \<and>
         getProjectId e w = (Inl (new_Error NOT_INITIALIZED), w)"
  using assms by (simp add: getAccessToken_def getAuthenticatedClient_def getProjectId_def)

text \<open>
  C4. The claim: each accessor, invoked before a successful \<open>initialize\<close>, fails with the
  not-initialized error and makes no network call. After an \<open>initialize\<close> that failed in
  its probe no \<open>initialize\<close> has succeeded, yet the flag is set:
  \<open>getAuthenticatedClient\<close> returns the client, and \<open>getAccessToken\<close> and
  \<open>getProjectId\<close> each make their network call.
\<close>

theorem accessors_run_after_failed_probe:
  "initialize env_probe_fails new_world = (Inl (new_Error AUTH_INIT_FAILED), probe_failed_world) \<and>
   getAuthenticatedClient env_probe_fails probe_failed_world
     = (Inr (Some (AuthClient 0)), probe_failed_world) \<and>
   getAccessToken env_probe_fails probe_failed_world
     = (Inr (Some ''token''),
        probe_failed_world\<lparr>trace := trace probe_failed_world @ [GetAccessToken]\<rparr>) \<and>
   getProjectId env_probe_fails probe_failed_world
     = (Inl (JsError ''metadata server unreachable'' None),
        probe_failed_world\<lparr>trace := trace probe_failed_world @ [GetProjectId]\<rparr>)"
  by (simp add: initialize_probe_fails)
     (simp add: getAuthenticatedClient_def getAccessToken_def getProjectId_def
                call_getAccessToken_def call_getProjectId_def env_defs probe_failed_world_def)

text \<open>
  The probe fails once and the service is asked to initialise afterwards: it becomes
  initialised on credentials that never passed the probe, since no access token is ever
  requested.
\<close>

lemma service_initialised_without_probe:
  "fst (initialize env_probe_fails_once new_world) = Inl (new_Error AUTH_INIT_FAILED) \<and>
   fst (GoogleSTTService_initialize env_probe_fails_once
          (snd (initialize env_probe_fails_once new_world))) = Inr () \<and>
   stt_initialized (svc (snd (GoogleSTTService_initialize env_probe_fails_once
          (snd (initialize env_probe_fails_once new_world))))) \<and>
   GetAccessToken \<notin> set (trace (snd (GoogleSTTService_initialize env_probe_fails_once
          (snd (initialize env_probe_fails_once new_world)))))"
  by (simp add: GoogleSTTService_initialize_def getAuthenticatedClient_def getProjectId_def
                manager_defs env_defs env_probe_fails_once_def new_world_def)

text \<open>
  C8. The claim: \<open>refreshAuthentication\<close> clears the flag, the client and the auth handle,
  runs a fresh \<open>initialize\<close> and succeeds whenever that succeeds. In the revised manager
  the third assignment is written \<open>tiis.auth = null\<close>; it throws, so from the ready state
  reached by a successful \<open>initialize\<close> the refresh fails, makes no call to any
  collaborator and keeps the old auth handle, although \<open>initialize\<close> on the state it
  leaves behind would succeed.
\<close>

theorem refreshAuthentication_fails_when_initialize_would_succeed:
  "fst (refreshAuthentication env_healthy (snd (initialize env_healthy new_world)))
     = Inl (new_Error REFRESH_FAILED) \<and>
   trace (snd (refreshAuthentication env_healthy (snd (initialize env_healthy new_world))))
     = trace (snd (initialize env_healthy new_world)) \<and>
   auth (wim (snd (refreshAuthentication env_healthy (snd (initialize env_healthy new_world)))))
     = Some (new_GoogleAuth env_healthy) \<and>
   fst (initialize env_healthy
          (snd (refreshAuthentication env_healthy (snd (initialize env_healthy new_world)))))
     = Inr ()"
  by (simp add: refreshAuthentication_def tiis_def initialize_healthy)
     (simp add: manager_defs env_defs new_world_def string_truthy_def)

text \<open>The same holds from every state and in every environment.\<close>

lemma refreshAuthentication_always_fails:
  "refreshAuthentication e w =
     (Inl (new_Error REFRESH_FAILED), w\<lparr>wim := (wim w)\<lparr>initialized := False, client := None\<rparr>\<rparr>)"
  by (simp add: refreshAuthentication_def tiis_def)

section \<open>Credential manager, older copy\<close>

text \<open>
  In the older copy \<open>initialize\<close> cannot succeed on a manager whose flag is unset: its
  probe asks for an access token while the flag is still unset, which starts
  \<open>initialize\<close> again. Whatever the fuel, the call either fails or has not returned.
\<close>

lemma old_copy_never_ready:
  "\<not> initialized (wim w) \<Longrightarrow> \<forall>u w'. initialize_old n e w \<noteq> Some (Inr u, w')"
  "\<not> initialized (wim w) \<Longrightarrow> \<forall>u w'. testAuthentication_old n e w \<noteq> Some (Inr u, w')"
  "\<not> initialized (wim w) \<Longrightarrow> \<forall>tok w'. getAccessToken_old n e w \<noteq> Some (Inr tok, w')"
proof (induction n e w and n e w and n e w
       rule: initialize_old_testAuthentication_old_getAccessToken_old.induct)
  case (1 e w)
  then show ?case by simp
next
  case (2 n e w)
  then show ?case
    by (fastforce simp: call_getClient_def split: sum.splits option.splits prod.splits)
next
  case (3 e w)
  then show ?case by simp
next
  case (4 n e w)
  then show ?case
    by (fastforce simp: call_getProjectId_def split: sum.splits option.splits prod.splits if_splits)
next
  case (5 e w)
  then show ?case by simp
next
  case (6 n e w)
  then show ?case
    by (fastforce split: sum.splits option.splits prod.splits)
qed

text \<open>The older accessor reaches for the network when the manager is not initialized.\<close>

lemma old_accessor_initializes_lazily:
  "getAccessToken_old (Suc (Suc n)) env_no_client new_world
     = Some (Inl (new_Error ACCESS_TOKEN_FAILED),
             new_world\<lparr>wim := (wim new_world)\<lparr>auth := Some (new_GoogleAuth env_no_client)\<rparr>,
                       trace := [GetClient (new_GoogleAuth env_no_client)]\<rparr>)"
  by (simp add: call_getClient_def env_defs new_world_def)

text \<open>
  At the input where the revised manager is left ready by a failed probe, the older copy
  is left with the flag unset.
\<close>

lemma old_copy_failed_probe_not_ready:
  "initialize_old (Suc (Suc n)) env_probe_fails new_world
     = Some (Inl (new_Error AUTH_INIT_FAILED),
             probe_failed_world\<lparr>wim := (wim probe_failed_world)\<lparr>initialized := False\<rparr>\<rparr>) \<and>
   \<not> isAuthenticated (probe_failed_world\<lparr>wim := (wim probe_failed_world)\<lparr>initialized := False\<rparr>\<rparr>)"
  by (simp add: call_getClient_def call_getProjectId_def env_defs new_world_def
                probe_failed_world_def isAuthenticated_def)

lemma old_refresh_never_succeeds:
  "\<forall>u w'. refreshAuthentication_old n e w \<noteq> Some (Inr u, w')"
proof -
  have "\<not> initialized (wim (w\<lparr>wim := (wim w)\<lparr>initialized := False, client := None\<rparr>\<rparr>))"
    by simp
  from old_copy_never_ready(1)[OF this, of n e] show ?thesis
    by (auto simp: refreshAuthentication_old_def split: option.splits sum.splits prod.splits)
qed

section \<open>Rate limiting\<close>

text \<open>What an accepted call stores: the timestamps of the last minute and the new one.\<close>

lemma checkRateLimit_accept:
  assumes "checkRateLimit rc c now = Inr rc'"
  shows "rc' = rc(c \<mapsto> filter (\<lambda>t. now - t < 60000) (case rc c of Some ts \<Rightarrow> ts | None \<Rightarrow> []) @ [now])"
    and "length (filter (\<lambda>t. now - t < 60000) (case rc c of Some ts \<Rightarrow> ts | None \<Rightarrow> [])) < 60"
  using assms by (auto simp: checkRateLimit_def Let_def speechConfig_def split: if_splits)

lemma bounded_history_empty: "bounded_history Map.empty"
  by (simp add: bounded_history_def)

lemma bounded_history_step:
  assumes "bounded_history rc" and "checkRateLimit rc c now = Inr rc'"
  shows "bounded_history rc'"
  using assms(1) checkRateLimit_accept[OF assms(2)]
  by (auto simp: bounded_history_def)

text \<open>
  With at most sixty stored timestamps per caller the hourly ceiling of 1000 is never
  reached: a call is rejected exactly when the last minute already holds sixty requests.
\<close>

lemma hourly_ceiling_never_reached:
  assumes "bounded_history rc"
  shows "(\<exists>err. checkRateLimit rc c now = Inl err)
           \<longleftrightarrow> 60 \<le> length (filter (\<lambda>t. now - t < 60000) (case rc c of Some ts \<Rightarrow> ts | None \<Rightarrow> []))"
proof -
  let ?ts = "case rc c of Some ts \<Rightarrow> ts | None \<Rightarrow> []"
  have "length ?ts \<le> 60"
    using assms by (auto simp: bounded_history_def split: option.splits)
  moreover have "length (filter (\<lambda>t. now - t < 3600000) ?ts) \<le> length ?ts"
    by (rule length_filter_le)
  ultimately have "length (filter (\<lambda>t. now - t < 3600000) ?ts) < 1000" by linarith
  then show ?thesis
    by (auto simp: checkRateLimit_def Let_def speechConfig_def)
qed

lemma filter_from: "filter (\<lambda>j. a \<le> j) [m..<n] = [max a m..<n]"
  by (induction n) (auto simp: max_def)

lemma recent_of_stored:
  "filter (\<lambda>t. 3000 * int k - t < 60000) (stored_after k) = map (\<lambda>j. 3000 * int j) [Suc k - 20..<k]"
proof -
  have "filter (\<lambda>t. 3000 * int k - t < 60000) (stored_after k)
          = map (\<lambda>j. 3000 * int j) (filter (\<lambda>j. Suc k - 20 \<le> j) [k - 20..<k])"
    unfolding stored_after_def filter_map
    by (rule arg_cong[where f = "map (\<lambda>j. 3000 * int j)"], rule filter_cong) auto
  also have "\<dots> = map (\<lambda>j. 3000 * int j) [Suc k - 20..<k]"
    by (simp add: filter_from max_def)
  finally show ?thesis .
qed

lemma stored_after_Suc:
  "map (\<lambda>j. 3000 * int j) [Suc k - 20..<k] @ [3000 * int k] = stored_after (Suc k)"
  by (simp add: stored_after_def)

lemma checkRateLimit_accepts:
  assumes "length (filter (\<lambda>t. now - t < 60000) (case rc c of Some ts \<Rightarrow> ts | None \<Rightarrow> [])) < 60"
    and "length (filter (\<lambda>t. now - t < 3600000) (case rc c of Some ts \<Rightarrow> ts | None \<Rightarrow> [])) < 1000"
  shows "checkRateLimit rc c now
           = Inr (rc(c \<mapsto> filter (\<lambda>t. now - t < 60000) (case rc c of Some ts \<Rightarrow> ts | None \<Rightarrow> []) @ [now]))"
  using assms by (simp add: checkRateLimit_def speechConfig_def Let_def)

lemma spaced_call_accepted:
  assumes "(case rc c of Some ts \<Rightarrow> ts | None \<Rightarrow> []) = stored_after k"
  shows "checkRateLimit rc c (3000 * int k) = Inr (rc(c \<mapsto> stored_after (Suc k)))"
proof -
  have recent: "length (filter (\<lambda>t. 3000 * int k - t < 60000) (stored_after k)) < 60"
    by (simp add: recent_of_stored)
  have "length (filter (\<lambda>t. 3000 * int k - t < 3600000) (stored_after k)) \<le> length (stored_after k)"
    by (rule length_filter_le)
  also have "\<dots> \<le> 20" by (simp add: stored_after_def)
  finally have hourly: "length (filter (\<lambda>t. 3000 * int k - t < 3600000) (stored_after k)) < 1000"
    by simp
  have "checkRateLimit rc c (3000 * int k)
          = Inr (rc(c \<mapsto> filter (\<lambda>t. 3000 * int k - t < 60000) (stored_after k) @ [3000 * int k]))"
    using checkRateLimit_accepts[of "3000 * int k" rc c] recent hourly
    by (simp only: assms)
  then show ?thesis
    by (simp only: recent_of_stored stored_after_Suc)
qed

lemma replay_spaced:
  assumes "(case rc c of Some ts \<Rightarrow> ts | None \<Rightarrow> []) = stored_after k"
  shows "replay rc c (every_three_seconds k n) = (replicate n True, if n = 0 then rc else rc(c \<mapsto> stored_after (k + n)))"
  using assms
proof (induction n arbitrary: k rc)
  case 0
  then show ?case by (simp add: every_three_seconds_def)
next
  case (Suc n)
  have split: "every_three_seconds k (Suc n) = 3000 * int k # every_three_seconds (Suc k) n"
    by (simp add: every_three_seconds_def upt_conv_Cons del: upt_Suc)
  have next_state: "(case (rc(c \<mapsto> stored_after (Suc k))) c of Some ts \<Rightarrow> ts | None \<Rightarrow> []) = stored_after (Suc k)"
    by simp
  show ?case
    by (auto simp: split spaced_call_accepted[of rc c k, OF Suc.prems]
                   Suc.IH[of "rc(c \<mapsto> stored_after (Suc k))" "Suc k", OF next_state])
qed

lemma thousand_and_first_call_accepted:
  "fst (replay Map.empty ''203.0.113.7'' (every_three_seconds 0 1001)) = replicate 1001 True \<and>
   length (filter (\<lambda>t. 3000 * 1000 - t < 3600000) (every_three_seconds 0 1000)) = 1000"
proof -
  have "(case Map.empty ''203.0.113.7'' of Some ts \<Rightarrow> ts | None \<Rightarrow> []) = stored_after 0"
    by (simp add: stored_after_def)
  from replay_spaced[OF this, where n = 1001]
  have "fst (replay Map.empty ''203.0.113.7'' (every_three_seconds 0 1001)) = replicate 1001 True"
    by simp
  moreover have "filter (\<lambda>t. 3000 * 1000 - t < 3600000) (every_three_seconds 0 1000)
                   = every_three_seconds 0 1000"
    by (rule filter_True) (auto simp: every_three_seconds_def)
  ultimately show ?thesis by (simp add: every_three_seconds_def)
qed

lemma second_call_forgets_first:
  "checkRateLimit Map.empty ''203.0.113.7'' 0 = Inr [''203.0.113.7'' \<mapsto> [0]] \<and>
   checkRateLimit [''203.0.113.7'' \<mapsto> [0]] ''203.0.113.7'' 60000 = Inr [''203.0.113.7'' \<mapsto> [60000]] \<and>
   (60000 :: int) - 0 < 3600000 \<and>
   length (filter (\<lambda>t. 60001 - t < 3600000) [60000 :: int]) = 1 \<and>
   length (filter (\<lambda>t. 60001 - t < 3600000) [0, 60000 :: int]) = 2"
  by (simp add: checkRateLimit_def speechConfig_def)

text \<open>
  C1. The claim: the stored state keeps every accepted timestamp of the past 3600 seconds,
  so the long-window count is the number of requests accepted in the past hour and the
  call is rejected once it reaches 1000. The code stores only the timestamps of the last
  minute. A caller accepted at time 0 and again at 60000 ms is left with the single
  timestamp 60000, although time 0 lies within the past hour; the hourly filter of a third
  call at 60001 ms then counts 1 where 2 requests were accepted. And of 1001 calls made
  three seconds apart every one is accepted, the last one too, although the 1000 requests
  accepted before it all lie within its past hour.
\<close>

theorem hourly_window_not_enforced:
  "checkRateLimit Map.empty ''203.0.113.7'' 0 = Inr [''203.0.113.7'' \<mapsto> [0]] \<and>
   checkRateLimit [''203.0.113.7'' \<mapsto> [0]] ''203.0.113.7'' 60000 = Inr [''203.0.113.7'' \<mapsto> [60000]] \<and>
   (60000 :: int) - 0 < 3600000 \<and>
   length (filter (\<lambda>t. 60001 - t < 3600000) [60000 :: int]) = 1 \<and>
   length (filter (\<lambda>t. 60001 - t < 3600000) [0, 60000 :: int]) = 2 \<and>
   fst (replay Map.empty ''203.0.113.7'' (every_three_seconds 0 1001)) = replicate 1001 True \<and>
   length (filter (\<lambda>t. 3000 * 1000 - t < 3600000) (every_three_seconds 0 1000)) = 1000"
  using second_call_forgets_first thousand_and_first_call_accepted by simp

section \<open>Single-request transcription\<close>

lemma recognizer_calls_append:
  "recognizer_calls (xs @ ys) = recognizer_calls xs @ recognizer_calls ys"
  by (induction xs rule: recognizer_calls.induct) simp_all

lemma initialize_no_recognize:
  "recognizer_calls (trace (snd (initialize e w))) = recognizer_calls (trace w)"
  by (auto simp: manager_defs recognizer_calls_append
           split: sum.splits option.splits prod.splits)

lemma ensure_initialized_no_recognize:
  "recognizer_calls (trace (snd (ensure_initialized e w))) = recognizer_calls (trace w)"
proof -
  have "recognizer_calls (trace (snd (GoogleSTTService_initialize e w))) = recognizer_calls (trace w)"
    using initialize_no_recognize[of e w]
    by (auto simp: GoogleSTTService_initialize_def getAuthenticatedClient_def getProjectId_def
                   call_getProjectId_def recognizer_calls_append
             split: sum.splits option.splits prod.splits)
  then show ?thesis by (simp add: ensure_initialized_def)
qed

lemma classify_FILE_TOO_LARGE:
  "classify_error (new_Error errorMessages_FILE_TOO_LARGE)
     = new_Error (errorMessages_TRANSCRIPTION_FAILED @ '': '' @ errorMessages_FILE_TOO_LARGE)"
  by (simp add: classify_error_def new_Error_def errorMessages_FILE_TOO_LARGE_def)

lemma classify_RATE_LIMIT_EXCEEDED:
  "classify_error (new_Error errorMessages_RATE_LIMIT_EXCEEDED)
     = new_Error (errorMessages_TRANSCRIPTION_FAILED @ '': '' @ errorMessages_RATE_LIMIT_EXCEEDED)"
  by (simp add: classify_error_def new_Error_def errorMessages_RATE_LIMIT_EXCEEDED_def)

lemma checkRateLimit_error:
  "checkRateLimit rc c now = Inl err \<Longrightarrow> err = new_Error errorMessages_RATE_LIMIT_EXCEEDED"
  by (auto simp: checkRateLimit_def Let_def split: if_splits)

lemma validateAudioFile_too_large:
  "length buf > maxFileSize speechConfig \<Longrightarrow>
   validateAudioFile buf fmt = Inl (new_Error errorMessages_FILE_TOO_LARGE)"
  by (simp add: validateAudioFile_def)

lemma transcribeAudio_try_too_large:
  assumes "ensure_initialized e w = (Inr (), w1)"
    and "length buf > maxFileSize speechConfig"
  shows "transcribeAudio_try e buf fmt opts w
           = (Inl (new_Error errorMessages_FILE_TOO_LARGE), w1\<lparr>ticks := Suc (ticks w1)\<rparr>)"
  using assms by (simp add: transcribeAudio_try_def read_clock_def validateAudioFile_too_large)

lemma transcribeAudio_try_rate_limited:
  assumes "ensure_initialized e w = (Inr (), w1)"
    and "validateAudioFile buf fmt = Inr ok"
    and "checkRateLimit (requestCount (svc w1)) (or_string (clientId opts) ''default'')
           (Date_now e (Suc (ticks w1))) = Inl err"
  shows "transcribeAudio_try e buf fmt opts w
           = (Inl (new_Error errorMessages_RATE_LIMIT_EXCEEDED), w1\<lparr>ticks := Suc (Suc (ticks w1))\<rparr>)"
  using assms checkRateLimit_error[OF assms(3)]
  by (simp add: transcribeAudio_try_def read_clock_def)

lemma transcribeAudio_try_recognized:
  assumes "ensure_initialized e w = (Inr (), w1)"
    and "speechClient (svc w1) = Some sc"
    and "validateAudioFile buf fmt = Inr ok"
    and "checkRateLimit (requestCount (svc w1)) (or_string (clientId opts) ''default'')
           (Date_now e (Suc (ticks w1))) = Inr rc"
    and "speechClient_recognize e (length (trace w1))
           \<lparr> config = build_config fmt opts, audio_content = buf \<rparr> = Inr response"
  shows "transcribeAudio_try e buf fmt opts w
           = (process_response response (build_config fmt opts) (length buf)
                (Date_now e (ticks w1 + 2) - Date_now e (ticks w1)),
              w1\<lparr>svc := (svc w1)\<lparr>requestCount := rc\<rparr>,
                 trace := trace w1 @ [Recognize \<lparr> config = build_config fmt opts, audio_content = buf \<rparr>],
                 ticks := ticks w1 + 3\<rparr>)"
  using assms
  by (simp add: transcribeAudio_try_def read_clock_def call_recognize_def Let_def)

text \<open>
  C2, as stated, fails: an oversized buffer does not surface the validator's
  \<open>FILE_TOO_LARGE\<close> error. The \<open>catch\<close> block of \<open>transcribeAudio\<close> replaces it by the
  generic transcription failure whose message carries the validator's message.
\<close>

theorem transcribeAudio_too_large_counterexample:
  "fst (transcribeAudio env_healthy oversized_buffer ''webm'' no_options ready_world)
     = Inl (new_Error (errorMessages_TRANSCRIPTION_FAILED @ '': '' @ errorMessages_FILE_TOO_LARGE)) \<and>
   fst (transcribeAudio env_healthy oversized_buffer ''webm'' no_options ready_world)
     \<noteq> Inl (new_Error errorMessages_FILE_TOO_LARGE)"
proof -
  have init: "ensure_initialized env_healthy ready_world = (Inr (), ready_world)"
    by (simp add: ensure_initialized_def ready_world_def)
  have big: "length oversized_buffer > maxFileSize speechConfig"
    by (simp add: oversized_buffer_def speechConfig_def)
  have "fst (transcribeAudio env_healthy oversized_buffer ''webm'' no_options ready_world)
          = Inl (new_Error (errorMessages_TRANSCRIPTION_FAILED @ '': '' @ errorMessages_FILE_TOO_LARGE))"
    by (simp add: transcribeAudio_def transcribeAudio_try_too_large[OF init big]
                  classify_FILE_TOO_LARGE)
  moreover have "errorMessages_TRANSCRIPTION_FAILED @ '': '' @ errorMessages_FILE_TOO_LARGE
                   \<noteq> errorMessages_FILE_TOO_LARGE"
    by (simp add: errorMessages_TRANSCRIPTION_FAILED_def errorMessages_FILE_TOO_LARGE_def)
  ultimately show ?thesis by (simp add: new_Error_def)
qed

text \<open>
  C2, amended. Once the service is initialized (or its lazy initialisation succeeds), for
  every buffer longer than \<open>maxFileSize\<close>, \<open>transcribeAudio\<close> fails with the generic
  transcription failure whose message is \<open>TRANSCRIPTION_FAILED\<close>, a colon and a space,
  and the validator's \<open>FILE_TOO_LARGE\<close> message, and no recognizer call occurs; likewise
  an error of \<open>checkRateLimit\<close> is re-wrapped in the same way, with no recognizer call.
\<close>

theorem local_errors_are_wrapped:
  assumes "ensure_initialized e w = (Inr (), w1)"
  shows "(length buf > maxFileSize speechConfig \<longrightarrow>
            fst (transcribeAudio e buf fmt opts w)
              = Inl (new_Error (errorMessages_TRANSCRIPTION_FAILED @ '': '' @ errorMessages_FILE_TOO_LARGE)) \<and>
            recognizer_calls (trace (snd (transcribeAudio e buf fmt opts w)))
              = recognizer_calls (trace w))
       \<and> (\<forall>ok err. validateAudioFile buf fmt = Inr ok \<and>
              checkRateLimit (requestCount (svc w1)) (or_string (clientId opts) ''default'')
                (Date_now e (Suc (ticks w1))) = Inl err \<longrightarrow>
            fst (transcribeAudio e buf fmt opts w)
              = Inl (new_Error (errorMessages_TRANSCRIPTION_FAILED @ '': '' @ errorMessages_RATE_LIMIT_EXCEEDED)) \<and>
            recognizer_calls (trace (snd (transcribeAudio e buf fmt opts w)))
              = recognizer_calls (trace w))"
proof (intro conjI impI allI)
  have tr: "recognizer_calls (trace w1) = recognizer_calls (trace w)"
    using ensure_initialized_no_recognize[of e w] assms by simp
  {
    assume big: "length buf > maxFileSize speechConfig"
    show "fst (transcribeAudio e buf fmt opts w)
            = Inl (new_Error (errorMessages_TRANSCRIPTION_FAILED @ '': '' @ errorMessages_FILE_TOO_LARGE))"
      by (simp add: transcribeAudio_def transcribeAudio_try_too_large[OF assms big]
                    classify_FILE_TOO_LARGE)
    show "recognizer_calls (trace (snd (transcribeAudio e buf fmt opts w)))
            = recognizer_calls (trace w)"
      by (simp add: transcribeAudio_def transcribeAudio_try_too_large[OF assms big] tr)
  }
  {
    fix ok err
    assume h: "validateAudioFile buf fmt = Inr ok \<and>
               checkRateLimit (requestCount (svc w1)) (or_string (clientId opts) ''default'')
                 (Date_now e (Suc (ticks w1))) = Inl err"
    note r = transcribeAudio_try_rate_limited[OF assms conjunct1[OF h] conjunct2[OF h]]
    show "fst (transcribeAudio e buf fmt opts w)
            = Inl (new_Error (errorMessages_TRANSCRIPTION_FAILED @ '': '' @ errorMessages_RATE_LIMIT_EXCEEDED))"
      by (simp add: transcribeAudio_def r classify_RATE_LIMIT_EXCEEDED)
    show "recognizer_calls (trace (snd (transcribeAudio e buf fmt opts w)))
            = recognizer_calls (trace w)"
      by (simp add: transcribeAudio_def r tr)
  }
qed

theorem local_errors_are_wrapped_witness:
  "ensure_initialized env_healthy busy_world = (Inr (), busy_world) \<and>
   length oversized_buffer > maxFileSize speechConfig \<and>
   fst (transcribeAudio env_healthy oversized_buffer ''webm'' no_options busy_world)
     = Inl (new_Error (errorMessages_TRANSCRIPTION_FAILED @ '': '' @ errorMessages_FILE_TOO_LARGE)) \<and>
   validateAudioFile [1, 2, 3] ''webm'' = Inr True \<and>
   checkRateLimit (requestCount (svc busy_world)) (or_string (clientId no_options) ''default'')
     (Date_now env_healthy (Suc (ticks busy_world))) = Inl (new_Error errorMessages_RATE_LIMIT_EXCEEDED) \<and>
   fst (transcribeAudio env_healthy [1, 2, 3] ''webm'' no_options busy_world)
     = Inl (new_Error (errorMessages_TRANSCRIPTION_FAILED @ '': '' @ errorMessages_RATE_LIMIT_EXCEEDED)) \<and>
   recognizer_calls (trace (snd (transcribeAudio env_healthy [1, 2, 3] ''webm'' no_options busy_world))) = []"
proof -
  have init: "ensure_initialized env_healthy busy_world = (Inr (), busy_world)"
    by (simp add: ensure_initialized_def busy_world_def ready_world_def)
  have big: "length oversized_buffer > maxFileSize speechConfig"
    by (simp add: oversized_buffer_def speechConfig_def)
  have valid: "validateAudioFile [1, 2, 3] ''webm'' = Inr True"
    by (simp add: validateAudioFile_def speechConfig_def lower_defs)
  have rate: "checkRateLimit (requestCount (svc busy_world)) (or_string (clientId no_options) ''default'')
                (Date_now env_healthy (Suc (ticks busy_world)))
              = Inl (new_Error errorMessages_RATE_LIMIT_EXCEEDED)"
    by (simp add: checkRateLimit_def busy_world_def ready_world_def no_options_def or_string_def
                  string_truthy_def env_healthy_def speechConfig_def)
  have tr: "recognizer_calls (trace busy_world) = []"
    by (simp add: busy_world_def ready_world_def)
  note inst = local_errors_are_wrapped[OF init]
  have A: "fst (transcribeAudio env_healthy oversized_buffer ''webm'' no_options busy_world)
             = Inl (new_Error (errorMessages_TRANSCRIPTION_FAILED @ '': '' @ errorMessages_FILE_TOO_LARGE))"
    using inst[of oversized_buffer "''webm''" no_options, THEN conjunct1, rule_format, OF big] by simp
  have B: "fst (transcribeAudio env_healthy [1, 2, 3] ''webm'' no_options busy_world)
             = Inl (new_Error (errorMessages_TRANSCRIPTION_FAILED @ '': '' @ errorMessages_RATE_LIMIT_EXCEEDED)) \<and>
           recognizer_calls (trace (snd (transcribeAudio env_healthy [1, 2, 3] ''webm'' no_options busy_world)))
             = recognizer_calls (trace busy_world)"
    using inst[of "[1, 2, 3]" "''webm''" no_options, THEN conjunct2, rule_format, OF conjI[OF valid rate]] .
  show ?thesis using init big valid rate A B tr by simp
qed

text \<open>
  C6. Whenever the recognizer is reached and its response contains no results (the list is
  missing or empty), \<open>transcribeAudio\<close> returns a successful result with empty transcript,
  confidence 0 and empty \<open>alternatives\<close> and \<open>wordDetails\<close>.
\<close>

theorem empty_results_are_success:
  assumes "ensure_initialized e w = (Inr (), w1)"
    and "speechClient (svc w1) = Some sc"
    and "validateAudioFile buf fmt = Inr ok"
    and "checkRateLimit (requestCount (svc w1)) (or_string (clientId opts) ''default'')
           (Date_now e (Suc (ticks w1))) = Inr rc"
    and "speechClient_recognize e (length (trace w1))
           \<lparr> config = build_config fmt opts, audio_content = buf \<rparr> = Inr response"
    and "results response = None \<or> results response = Some []"
  shows "fst (transcribeAudio e buf fmt opts w)
           = Inr \<lparr> success = True, transcription = [], confidence = 0,
                   processingTime = Date_now e (ticks w1 + 2) - Date_now e (ticks w1),
                   alternatives = [], wordDetails = [], debug = None, chunks = None \<rparr>"
proof -
  have "process_response response (build_config fmt opts) (length buf)
          (Date_now e (ticks w1 + 2) - Date_now e (ticks w1))
        = Inr \<lparr> success = True, transcription = [], confidence = 0,
                processingTime = Date_now e (ticks w1 + 2) - Date_now e (ticks w1),
                alternatives = [], wordDetails = [], debug = None, chunks = None \<rparr>"
    using assms(6) by (auto simp: process_response_def)
  then show ?thesis
    by (simp add: transcribeAudio_def
                  transcribeAudio_try_recognized[OF assms(1) assms(2) assms(3) assms(4) assms(5)])
qed

theorem empty_results_are_success_witness:
  "ensure_initialized env_silence ready_world = (Inr (), ready_world) \<and>
   validateAudioFile [1, 2, 3] ''webm'' = Inr True \<and>
   speechClient_recognize env_silence (length (trace ready_world))
     \<lparr> config = build_config ''webm'' no_options, audio_content = [1, 2, 3] \<rparr>
     = Inr \<lparr> results = Some [] \<rparr> \<and>
   fst (transcribeAudio env_silence [1, 2, 3] ''webm'' no_options ready_world)
     = Inr \<lparr> success = True, transcription = [], confidence = 0, processingTime = 10,
             alternatives = [], wordDetails = [], debug = None, chunks = None \<rparr>"
proof -
  have init: "ensure_initialized env_silence ready_world = (Inr (), ready_world)"
    by (simp add: ensure_initialized_def ready_world_def)
  have cl: "speechClient (svc ready_world) = Some (SpeechClient ''demo-project'' (Some (AuthClient 0)))"
    by (simp add: ready_world_def)
  have valid: "validateAudioFile [1, 2, 3] ''webm'' = Inr True"
    by (simp add: validateAudioFile_def speechConfig_def lower_defs)
  have rate: "checkRateLimit (requestCount (svc ready_world)) (or_string (clientId no_options) ''default'')
                (Date_now env_silence (Suc (ticks ready_world)))
              = Inr [''default'' \<mapsto> [5]]"
    by (simp add: checkRateLimit_def ready_world_def no_options_def or_string_def
                  string_truthy_def env_defs speechConfig_def)
  have resp: "speechClient_recognize env_silence (length (trace ready_world))
                \<lparr> config = build_config ''webm'' no_options, audio_content = [1, 2, 3] \<rparr>
              = Inr \<lparr> results = Some [] \<rparr>"
    by (simp add: env_defs)
  have empty: "results \<lparr> results = Some [] \<rparr> = None \<or> results \<lparr> results = Some ([] :: speech_result list) \<rparr> = Some []"
    by simp
  have t: "Date_now env_silence (ticks ready_world + 2) - Date_now env_silence (ticks ready_world) = 10"
    by (simp add: env_defs ready_world_def)
  from empty_results_are_success[OF init cl valid rate resp empty] t init valid resp
  show ?thesis by simp
qed

section \<open>Long audio\<close>

lemma chunk_events_append:
  "chunk_events (xs @ ys) = chunk_events xs @ chunk_events ys"
  by (induction xs rule: chunk_events.induct) simp_all

lemma initialize_chunk_events:
  "chunk_events (trace (snd (initialize e w))) = chunk_events (trace w)"
  by (auto simp: manager_defs chunk_events_append
           split: sum.splits option.splits prod.splits)

lemma ensure_initialized_chunk_events:
  "chunk_events (trace (snd (ensure_initialized e w))) = chunk_events (trace w)"
proof -
  have "chunk_events (trace (snd (GoogleSTTService_initialize e w))) = chunk_events (trace w)"
    using initialize_chunk_events[of e w]
    by (auto simp: GoogleSTTService_initialize_def getAuthenticatedClient_def getProjectId_def
                   call_getProjectId_def chunk_events_append
             split: sum.splits option.splits prod.splits)
  then show ?thesis by (simp add: ensure_initialized_def)
qed

text \<open>A successful single request has made exactly one recognizer call, as its last step.\<close>

lemma transcribeAudio_success_events:
  assumes "transcribeAudio e buf fmt opts w = (Inr r, w')"
  shows "chunk_events (trace w')
           = chunk_events (trace w) @ [Recognize \<lparr> config = build_config fmt opts, audio_content = buf \<rparr>]"
proof -
  obtain x w1 where init: "ensure_initialized e w = (x, w1)" by (cases "ensure_initialized e w")
  have tr: "chunk_events (trace w1) = chunk_events (trace w)"
    using ensure_initialized_chunk_events[of e w] init by simp
  from assms init tr show ?thesis
    by (auto simp: transcribeAudio_def transcribeAudio_try_def read_clock_def call_recognize_def
                   Let_def chunk_events_append
             split: sum.splits option.splits prod.splits)
qed

lemma initialize_svc: "svc (snd (initialize e w)) = svc w"
  by (auto simp: manager_defs split: sum.splits option.splits prod.splits)

lemma ensure_initialized_requestCount:
  "requestCount (svc (snd (ensure_initialized e w))) = requestCount (svc w)"
proof -
  have "requestCount (svc (snd (GoogleSTTService_initialize e w))) = requestCount (svc w)"
    using initialize_svc[of e w]
    by (auto simp: GoogleSTTService_initialize_def getAuthenticatedClient_def getProjectId_def
                   call_getProjectId_def
             split: sum.splits option.splits prod.splits)
  then show ?thesis by (simp add: ensure_initialized_def)
qed

text \<open>A successful single request has recorded its caller identity with the rate limiter.\<close>

lemma transcribeAudio_success_records:
  assumes "transcribeAudio e buf fmt opts w = (Inr r, w')"
  shows "dom (requestCount (svc w'))
           = insert (or_string (clientId opts) ''default'') (dom (requestCount (svc w)))"
proof -
  obtain x w1 where init: "ensure_initialized e w = (x, w1)" by (cases "ensure_initialized e w")
  have rc: "requestCount (svc w1) = requestCount (svc w)"
    using ensure_initialized_requestCount[of e w] init by simp
  from assms init rc show ?thesis
    by (auto simp: transcribeAudio_def transcribeAudio_try_def read_clock_def call_recognize_def
                   Let_def
             dest!: checkRateLimit_accept(1)
             split: sum.splits option.splits prod.splits)
qed

lemma chunk_options_caller:
  "or_string (clientId (chunk_options opts i)) ''default''
     = or_string (clientId opts) ''default'' @ ''_chunk_'' @ string_of_nat i"
  by (simp add: chunk_options_def or_string_def string_truthy_def)

lemma sleep_svc: "svc (sleep ms w) = svc w"
  by (simp add: sleep_def)

lemma maxChunkSize_pos: "0 < maxChunkSize"
  by (simp add: maxChunkSize_def)

lemma splitChunks_step:
  "i < length buf \<Longrightarrow>
   splitChunks i buf = slice buf i (i + maxChunkSize) # splitChunks (i + maxChunkSize) buf"
  by (subst splitChunks.simps) simp

lemma splitChunks_done: "\<not> i < length buf \<Longrightarrow> splitChunks i buf = []"
  by (subst splitChunks.simps) simp

lemma splitChunks_four:
  assumes "length buf = 4 * maxChunkSize"
  shows "splitChunks 0 buf =
           [slice buf 0 maxChunkSize,
            slice buf maxChunkSize (2 * maxChunkSize),
            slice buf (2 * maxChunkSize) (3 * maxChunkSize),
            slice buf (3 * maxChunkSize) (4 * maxChunkSize)]"
proof -
  note pos = maxChunkSize_pos
  have a1: "0 + maxChunkSize = maxChunkSize"
    and a2: "maxChunkSize + maxChunkSize = 2 * maxChunkSize"
    and a3: "2 * maxChunkSize + maxChunkSize = 3 * maxChunkSize"
    and a4: "3 * maxChunkSize + maxChunkSize = 4 * maxChunkSize"
    by simp_all
  have s4: "splitChunks (4 * maxChunkSize) buf = []"
    by (rule splitChunks_done) (simp add: assms)
  have "splitChunks (3 * maxChunkSize) buf
          = slice buf (3 * maxChunkSize) (3 * maxChunkSize + maxChunkSize)
              # splitChunks (3 * maxChunkSize + maxChunkSize) buf"
    by (rule splitChunks_step) (use assms pos in simp)
  then have s3: "splitChunks (3 * maxChunkSize) buf = [slice buf (3 * maxChunkSize) (4 * maxChunkSize)]"
    by (simp only: a4 s4)
  have "splitChunks (2 * maxChunkSize) buf
          = slice buf (2 * maxChunkSize) (2 * maxChunkSize + maxChunkSize)
              # splitChunks (2 * maxChunkSize + maxChunkSize) buf"
    by (rule splitChunks_step) (use assms pos in simp)
  then have s2: "splitChunks (2 * maxChunkSize) buf
                   = [slice buf (2 * maxChunkSize) (3 * maxChunkSize),
                      slice buf (3 * maxChunkSize) (4 * maxChunkSize)]"
    by (simp only: a3 s3)
  have "splitChunks maxChunkSize buf
          = slice buf maxChunkSize (maxChunkSize + maxChunkSize)
              # splitChunks (maxChunkSize + maxChunkSize) buf"
    by (rule splitChunks_step) (use assms pos in simp)
  then have s1: "splitChunks maxChunkSize buf
                   = [slice buf maxChunkSize (2 * maxChunkSize),
                      slice buf (2 * maxChunkSize) (3 * maxChunkSize),
                      slice buf (3 * maxChunkSize) (4 * maxChunkSize)]"
    by (simp only: a2 s2)
  have "splitChunks 0 buf
          = slice buf 0 (0 + maxChunkSize) # splitChunks (0 + maxChunkSize) buf"
    by (rule splitChunks_step) (use assms pos in simp)
  then show ?thesis
    by (simp only: a1 s1)
qed

lemma chunk_loop_step:
  assumes "i < length cs"
    and "transcribeAudio e (cs ! i) fmt (chunk_options opts i) w = (Inr r, w1)"
  shows "chunk_loop e cs fmt opts i rs t w
           = chunk_loop e cs fmt opts (Suc i) (rs @ [r]) (t + processingTime r)
               (if i < length cs - 1 then sleep 1000 w1 else w1)"
  using assms by (subst chunk_loop.simps) simp

lemma chunk_loop_done:
  "\<not> i < length cs \<Longrightarrow> chunk_loop e cs fmt opts i rs t w = (Inr (rs, t), w)"
  by (subst chunk_loop.simps) simp

lemma chunk_loop_four:
  assumes c0: "transcribeAudio e a0 fmt (chunk_options opts 0) w = (Inr r0, w0)"
    and c1: "transcribeAudio e a1 fmt (chunk_options opts 1) (sleep 1000 w0) = (Inr r1, w1)"
    and c2: "transcribeAudio e a2 fmt (chunk_options opts 2) (sleep 1000 w1) = (Inr r2, w2)"
    and c3: "transcribeAudio e a3 fmt (chunk_options opts 3) (sleep 1000 w2) = (Inr r3, w3)"
  shows "chunk_loop e [a0, a1, a2, a3] fmt opts 0 [] 0 w
           = (Inr ([r0, r1, r2, r3],
                   processingTime r0 + processingTime r1 + processingTime r2 + processingTime r3), w3)"
proof -
  let ?cs = "[a0, a1, a2, a3]"
  have "chunk_loop e ?cs fmt opts 0 [] 0 w
          = chunk_loop e ?cs fmt opts (Suc 0) [r0] (processingTime r0) (sleep 1000 w0)"
    using chunk_loop_step[of 0 ?cs e fmt opts w r0 w0 "[]" 0] c0 by simp
  also have "\<dots> = chunk_loop e ?cs fmt opts (Suc (Suc 0)) [r0, r1]
                     (processingTime r0 + processingTime r1) (sleep 1000 w1)"
    using chunk_loop_step[of "Suc 0" ?cs e fmt opts "sleep 1000 w0" r1 w1 "[r0]" "processingTime r0"] c1
    by simp
  also have "\<dots> = chunk_loop e ?cs fmt opts (Suc (Suc (Suc 0))) [r0, r1, r2]
                     (processingTime r0 + processingTime r1 + processingTime r2) (sleep 1000 w2)"
    using chunk_loop_step[of "Suc (Suc 0)" ?cs e fmt opts "sleep 1000 w1" r2 w2 "[r0, r1]"
                             "processingTime r0 + processingTime r1"] c2
    by (simp add: numeral_2_eq_2)
  also have "\<dots> = chunk_loop e ?cs fmt opts (Suc (Suc (Suc (Suc 0)))) [r0, r1, r2, r3]
                     (processingTime r0 + processingTime r1 + processingTime r2 + processingTime r3) w3"
    using chunk_loop_step[of "Suc (Suc (Suc 0))" ?cs e fmt opts "sleep 1000 w2" r3 w3 "[r0, r1, r2]"
                             "processingTime r0 + processingTime r1 + processingTime r2"] c3
    by (simp add: numeral_3_eq_3)
  also have "\<dots> = (Inr ([r0, r1, r2, r3],
                     processingTime r0 + processingTime r1 + processingTime r2 + processingTime r3), w3)"
    by (rule chunk_loop_done) simp
  finally show ?thesis .
qed

lemma long_audio_result_shape:
  assumes "length buf > maxChunkSize"
    and "transcribeLongAudio e buf fmt opts w = (Inr r, w')"
  shows "\<exists>rs t. r = merge_results rs t"
  using assms
  by (auto simp: transcribeLongAudio_def split: sum.splits prod.splits)

lemma sleep_chunk_events: "chunk_events (trace (sleep ms w)) = chunk_events (trace w) @ [Sleep ms]"
  by (simp add: sleep_def chunk_events_append)

lemma four_slices_cover:
  assumes "length buf = 4 * maxChunkSize"
  shows "concat [slice buf 0 maxChunkSize,
            slice buf maxChunkSize (2 * maxChunkSize),
            slice buf (2 * maxChunkSize) (3 * maxChunkSize),
            slice buf (3 * maxChunkSize) (4 * maxChunkSize)] = buf"
proof -
  have a2: "maxChunkSize + maxChunkSize = 2 * maxChunkSize"
    and a3: "2 * maxChunkSize + maxChunkSize = 3 * maxChunkSize"
    by simp_all
  have piece: "\<And>k. drop k buf = take maxChunkSize (drop k buf) @ drop (k + maxChunkSize) buf"
    by (metis add.commute append_take_drop_id drop_drop)
  have last: "take maxChunkSize (drop (3 * maxChunkSize) buf) = drop (3 * maxChunkSize) buf"
    using assms by simp
  have p2: "drop (2 * maxChunkSize) buf
          = take maxChunkSize (drop (2 * maxChunkSize) buf) @ drop (3 * maxChunkSize) buf"
    using piece[of "2 * maxChunkSize"] by (simp only: a3)
  have p1: "drop maxChunkSize buf
          = take maxChunkSize (drop maxChunkSize buf) @ drop (2 * maxChunkSize) buf"
    using piece[of maxChunkSize] by (simp only: a2)
  have p0: "buf = take maxChunkSize buf @ drop maxChunkSize buf"
    by simp
  have "take maxChunkSize buf @ take maxChunkSize (drop maxChunkSize buf)
          @ take maxChunkSize (drop (2 * maxChunkSize) buf) @ drop (3 * maxChunkSize) buf = buf"
    using p0 p1 p2 by metis
  then show ?thesis by (simp add: slice_def last)
qed

lemma four_slices_length:
  assumes "length buf = 4 * maxChunkSize"
  shows "map length [slice buf 0 maxChunkSize,
            slice buf maxChunkSize (2 * maxChunkSize),
            slice buf (2 * maxChunkSize) (3 * maxChunkSize),
            slice buf (3 * maxChunkSize) (4 * maxChunkSize)]
         = [maxChunkSize, maxChunkSize, maxChunkSize, maxChunkSize]"
  using assms by (simp add: slice_def)

lemma chunk_arith: "maxChunkSize + maxChunkSize = 2 * maxChunkSize"
  by simp

lemma chunk_request_simps:
  "chunk_request buf fmt opts 0
     = \<lparr> config = build_config fmt (chunk_options opts 0),
         audio_content = slice buf 0 maxChunkSize \<rparr>"
  "chunk_request buf fmt opts 1
     = \<lparr> config = build_config fmt (chunk_options opts 1),
         audio_content = slice buf maxChunkSize (2 * maxChunkSize) \<rparr>"
  "chunk_request buf fmt opts 2
     = \<lparr> config = build_config fmt (chunk_options opts 2),
         audio_content = slice buf (2 * maxChunkSize) (3 * maxChunkSize) \<rparr>"
  "chunk_request buf fmt opts 3
     = \<lparr> config = build_config fmt (chunk_options opts 3),
         audio_content = slice buf (3 * maxChunkSize) (4 * maxChunkSize) \<rparr>"
  by (simp_all add: chunk_request_def chunk_arith)

lemma string_of_nat_small:
  "string_of_nat 0 = ''0''" "string_of_nat 1 = ''1''" "string_of_nat (Suc 0) = ''1''"
  "string_of_nat 2 = ''2''" "string_of_nat 3 = ''3''"
  by (simp_all add: string_of_nat.simps digit_char_def)

text \<open>The whole long-audio call on four chunks, given that each chunk call succeeds.\<close>

lemma transcribeLongAudio_four:
  assumes len: "length buf = 4 * maxChunkSize"
    and c0: "transcribeAudio e (slice buf 0 maxChunkSize) fmt (chunk_options opts 0) w = (Inr r0, w0)"
    and c1: "transcribeAudio e (slice buf maxChunkSize (2 * maxChunkSize)) fmt (chunk_options opts 1)
               (sleep 1000 w0) = (Inr r1, w1)"
    and c2: "transcribeAudio e (slice buf (2 * maxChunkSize) (3 * maxChunkSize)) fmt (chunk_options opts 2)
               (sleep 1000 w1) = (Inr r2, w2)"
    and c3: "transcribeAudio e (slice buf (3 * maxChunkSize) (4 * maxChunkSize)) fmt (chunk_options opts 3)
               (sleep 1000 w2) = (Inr r3, w3)"
  shows "transcribeLongAudio e buf fmt opts w
           = (Inr (merge_results [r0, r1, r2, r3]
                     (processingTime r0 + processingTime r1 + processingTime r2 + processingTime r3)), w3)"
proof -
  have big: "\<not> length buf \<le> maxChunkSize"
    using len maxChunkSize_pos by simp
  show ?thesis
    by (simp add: transcribeLongAudio_def big splitChunks_four[OF len]
                  chunk_loop_four[OF c0 c1 c2 c3])
qed

lemma merge_four:
  "merge_results [r0, r1, r2, r3] t
     = \<lparr> success = True,
         transcription = join '' '' (filter (\<lambda>s. s \<noteq> [])
                           [transcription r0, transcription r1, transcription r2, transcription r3]),
         confidence = (confidence r0 + confidence r1 + confidence r2 + confidence r3) / 4,
         processingTime = t,
         alternatives = [], wordDetails = [], debug = None, chunks = Some 4 \<rparr>"
  by (simp add: merge_results_def)

lemma four_chunks_callers:
  assumes c0: "transcribeAudio e a0 fmt (chunk_options opts 0) w = (Inr r0, w0)"
    and c1: "transcribeAudio e a1 fmt (chunk_options opts 1) (sleep 1000 w0) = (Inr r1, w1)"
    and c2: "transcribeAudio e a2 fmt (chunk_options opts 2) (sleep 1000 w1) = (Inr r2, w2)"
    and c3: "transcribeAudio e a3 fmt (chunk_options opts 3) (sleep 1000 w2) = (Inr r3, w3)"
  shows "dom (requestCount (svc w3))
           = dom (requestCount (svc w)) \<union>
               {or_string (clientId opts) ''default'' @ ''_chunk_0'',
                or_string (clientId opts) ''default'' @ ''_chunk_1'',
                or_string (clientId opts) ''default'' @ ''_chunk_2'',
                or_string (clientId opts) ''default'' @ ''_chunk_3''}"
  using transcribeAudio_success_records[OF c0] transcribeAudio_success_records[OF c1]
        transcribeAudio_success_records[OF c2] transcribeAudio_success_records[OF c3]
  by (auto simp: chunk_options_caller sleep_svc string_of_nat_small)

text \<open>
  C5. For a buffer of exactly four times the chunk threshold, \<open>transcribeLongAudio\<close>
  splits it into four consecutive chunks of the threshold size and runs them in index
  order, each from the world the previous chunk left, with a pacing delay of one second
  after each chunk but the last (three delays); chunk \<open>i\<close> is invoked with the caller
  identity followed by \<open>_chunk_i\<close>, under which the rate limiter records it. When the four chunk calls succeed, the result is
  the merge: the non-empty chunk transcripts joined by a space in chunk order, the
  arithmetic mean of the four confidences, and the sum of the four processing times.
\<close>

theorem four_chunks_merged:
  assumes len: "length buf = 4 * maxChunkSize"
    and c0: "transcribeAudio e (slice buf 0 maxChunkSize) fmt (chunk_options opts 0) w = (Inr r0, w0)"
    and c1: "transcribeAudio e (slice buf maxChunkSize (2 * maxChunkSize)) fmt (chunk_options opts 1)
               (sleep 1000 w0) = (Inr r1, w1)"
    and c2: "transcribeAudio e (slice buf (2 * maxChunkSize) (3 * maxChunkSize)) fmt (chunk_options opts 2)
               (sleep 1000 w1) = (Inr r2, w2)"
    and c3: "transcribeAudio e (slice buf (3 * maxChunkSize) (4 * maxChunkSize)) fmt (chunk_options opts 3)
               (sleep 1000 w2) = (Inr r3, w3)"
  shows "map length (splitChunks 0 buf) = [maxChunkSize, maxChunkSize, maxChunkSize, maxChunkSize] \<and>
         concat (splitChunks 0 buf) = buf \<and>
         transcribeLongAudio e buf fmt opts w
           = (Inr \<lparr> success = True,
                    transcription = join '' '' (filter (\<lambda>s. s \<noteq> [])
                      [transcription r0, transcription r1, transcription r2, transcription r3]),
                    confidence = (confidence r0 + confidence r1 + confidence r2 + confidence r3) / 4,
                    processingTime = processingTime r0 + processingTime r1 + processingTime r2 + processingTime r3,
                    alternatives = [], wordDetails = [], debug = None, chunks = Some 4 \<rparr>, w3) \<and>
         chunk_events (trace w3)
           = chunk_events (trace w) @
               [Recognize (chunk_request buf fmt opts 0), Sleep 1000,
                Recognize (chunk_request buf fmt opts 1), Sleep 1000,
                Recognize (chunk_request buf fmt opts 2), Sleep 1000,
                Recognize (chunk_request buf fmt opts 3)] \<and>
         map (\<lambda>i. clientId (chunk_options opts i)) [0, 1, 2, 3]
           = map (\<lambda>s. Some (or_string (clientId opts) ''default'' @ ''_chunk_'' @ s))
               [''0'', ''1'', ''2'', ''3''] \<and>
         dom (requestCount (svc w3))
           = dom (requestCount (svc w)) \<union>
               {or_string (clientId opts) ''default'' @ ''_chunk_0'',
                or_string (clientId opts) ''default'' @ ''_chunk_1'',
                or_string (clientId opts) ''default'' @ ''_chunk_2'',
                or_string (clientId opts) ''default'' @ ''_chunk_3''}"
proof (intro conjI)
  show "dom (requestCount (svc w3))
           = dom (requestCount (svc w)) \<union>
               {or_string (clientId opts) ''default'' @ ''_chunk_0'',
                or_string (clientId opts) ''default'' @ ''_chunk_1'',
                or_string (clientId opts) ''default'' @ ''_chunk_2'',
                or_string (clientId opts) ''default'' @ ''_chunk_3''}"
    by (rule four_chunks_callers[OF c0 c1 c2 c3])
  show "map length (splitChunks 0 buf) = [maxChunkSize, maxChunkSize, maxChunkSize, maxChunkSize]"
    by (simp only: splitChunks_four[OF len] four_slices_length[OF len])
  show "concat (splitChunks 0 buf) = buf"
    by (simp only: splitChunks_four[OF len] four_slices_cover[OF len])
  show "transcribeLongAudio e buf fmt opts w
           = (Inr \<lparr> success = True,
                    transcription = join '' '' (filter (\<lambda>s. s \<noteq> [])
                      [transcription r0, transcription r1, transcription r2, transcription r3]),
                    confidence = (confidence r0 + confidence r1 + confidence r2 + confidence r3) / 4,
                    processingTime = processingTime r0 + processingTime r1 + processingTime r2 + processingTime r3,
                    alternatives = [], wordDetails = [], debug = None, chunks = Some 4 \<rparr>, w3)"
    by (simp only: transcribeLongAudio_four[OF len c0 c1 c2 c3] merge_four)
  have e0: "chunk_events (trace w0) = chunk_events (trace w) @ [Recognize (chunk_request buf fmt opts 0)]"
    using transcribeAudio_success_events[OF c0] by (simp only: chunk_request_simps)
  have e1: "chunk_events (trace w1)
              = chunk_events (trace (sleep 1000 w0)) @ [Recognize (chunk_request buf fmt opts 1)]"
    using transcribeAudio_success_events[OF c1] by (simp only: chunk_request_simps)
  have e2: "chunk_events (trace w2)
              = chunk_events (trace (sleep 1000 w1)) @ [Recognize (chunk_request buf fmt opts 2)]"
    using transcribeAudio_success_events[OF c2] by (simp only: chunk_request_simps)
  have e3: "chunk_events (trace w3)
              = chunk_events (trace (sleep 1000 w2)) @ [Recognize (chunk_request buf fmt opts 3)]"
    using transcribeAudio_success_events[OF c3] by (simp only: chunk_request_simps)
  show "chunk_events (trace w3)
           = chunk_events (trace w) @
               [Recognize (chunk_request buf fmt opts 0), Sleep 1000,
                Recognize (chunk_request buf fmt opts 1), Sleep 1000,
                Recognize (chunk_request buf fmt opts 2), Sleep 1000,
                Recognize (chunk_request buf fmt opts 3)]"
    by (simp add: e3 e2 e1 e0 sleep_chunk_events)
  show "map (\<lambda>i. clientId (chunk_options opts i)) [0, 1, 2, 3]
           = map (\<lambda>s. Some (or_string (clientId opts) ''default'' @ ''_chunk_'' @ s))
               [''0'', ''1'', ''2'', ''3'']"
    by (simp add: chunk_options_def string_of_nat_small)
qed

text \<open>
  C9. Every successful result of the chunked path (buffer longer than the chunk threshold)
  has empty \<open>alternatives\<close> and empty \<open>wordDetails\<close>, whatever the chunk results
  held.
\<close>

theorem long_audio_discards_details:
  assumes "length buf > maxChunkSize"
    and "transcribeLongAudio e buf fmt opts w = (Inr r, w')"
  shows "alternatives r = [] \<and> wordDetails r = []"
proof -
  from long_audio_result_shape[OF assms] obtain rs t where "r = merge_results rs t" by blast
  then show ?thesis by (simp add: merge_results_def)
qed


text \<open>In the healthy environment a chunk-sized request of a caller without history succeeds.\<close>

lemma healthy_transcribe:
  assumes "stt_initialized (svc w)"
    and "speechClient (svc w) = Some sc"
    and "length b = maxChunkSize"
    and "clientId opts = Some cid" and "cid \<noteq> []"
    and "requestCount (svc w) cid = None"
    and "sampleRate opts = None"
  shows "transcribeAudio env_healthy b ''webm'' opts w
           = (Inr chunk_result,
              w\<lparr>svc := (svc w)\<lparr>requestCount := (requestCount (svc w))(cid \<mapsto> [5 * int (Suc (ticks w))])\<rparr>,
                trace := trace w @ [Recognize \<lparr> config = build_config ''webm'' opts, audio_content = b \<rparr>],
                ticks := ticks w + 3\<rparr>)"
proof -
  have init: "ensure_initialized env_healthy w = (Inr (), w)"
    using assms(1) by (simp add: ensure_initialized_def)
  have valid: "validateAudioFile b ''webm'' = Inr True"
    using assms(3) by (simp add: validateAudioFile_def speechConfig_def lower_defs maxChunkSize_def)
  have rate: "checkRateLimit (requestCount (svc w)) (or_string (clientId opts) ''default'')
                (Date_now env_healthy (Suc (ticks w)))
              = Inr ((requestCount (svc w))(cid \<mapsto> [5 * int (Suc (ticks w))]))"
    using assms(4,5,6)
    by (simp add: checkRateLimit_def or_string_def string_truthy_def env_healthy_def speechConfig_def)
  have resp: "speechClient_recognize env_healthy (length (trace w))
                \<lparr> config = build_config ''webm'' opts, audio_content = b \<rparr> = Inr sample_response"
    by (simp add: env_healthy_def)
  have enc: "getEncodingConfig ''webm'' = Str ''WEBM_OPUS''"
    by (rule getEncodingConfig_known)
  have pr: "process_response sample_response (build_config ''webm'' opts) (length b)
              (Date_now env_healthy (ticks w + 2) - Date_now env_healthy (ticks w))
            = Inr chunk_result"
    using assms(3,7)
    by (simp add: process_response_def sample_response_def chunk_result_def build_config_def enc
                  or_string_def string_truthy_def or_zero_def offset_seconds_def env_healthy_def
                  speechConfig_def)
  show ?thesis
    unfolding transcribeAudio_def
    by (simp only: transcribeAudio_try_recognized[OF init assms(2) valid rate resp] pr
                   prod.case sum.case)
qed


lemma chunk_options_no_options:
  "clientId (chunk_options no_options 0) = Some ''default_chunk_0''"
  "clientId (chunk_options no_options 1) = Some ''default_chunk_1''"
  "clientId (chunk_options no_options 2) = Some ''default_chunk_2''"
  "clientId (chunk_options no_options 3) = Some ''default_chunk_3''"
  "sampleRate (chunk_options no_options i) = None"
  by (simp_all add: chunk_options_def no_options_def or_string_def string_truthy_def string_of_nat_small)

lemma four_chunk_buffer_length: "length four_chunk_buffer = 4 * maxChunkSize"
  by (simp add: four_chunk_buffer_def)

lemma four_chunk_slices_length:
  "length (slice four_chunk_buffer 0 maxChunkSize) = maxChunkSize"
  "length (slice four_chunk_buffer maxChunkSize (2 * maxChunkSize)) = maxChunkSize"
  "length (slice four_chunk_buffer (2 * maxChunkSize) (3 * maxChunkSize)) = maxChunkSize"
  "length (slice four_chunk_buffer (3 * maxChunkSize) (4 * maxChunkSize)) = maxChunkSize"
  using four_slices_length[OF four_chunk_buffer_length] by simp_all

lemma healthy_step:
  assumes "stt_initialized (svc w)"
    and "speechClient (svc w) = Some sc"
    and "length b = maxChunkSize"
    and "clientId opts = Some cid" and "cid \<noteq> []"
    and "cid \<notin> dom (requestCount (svc w))"
    and "sampleRate opts = None"
    and "w' = snd (transcribeAudio env_healthy b ''webm'' opts w)"
  shows "transcribeAudio env_healthy b ''webm'' opts w = (Inr chunk_result, w')"
    and "stt_initialized (svc w')"
    and "speechClient (svc w') = Some sc"
    and "dom (requestCount (svc w')) = insert cid (dom (requestCount (svc w)))"
proof -
  have none: "requestCount (svc w) cid = None"
    using assms(6) by (simp add: domIff)
  note eq = healthy_transcribe[OF assms(1) assms(2) assms(3) assms(4) assms(5) none assms(7)]
  have w': "w' = w\<lparr>svc := (svc w)\<lparr>requestCount := (requestCount (svc w))(cid \<mapsto> [5 * int (Suc (ticks w))])\<rparr>,
                trace := trace w @ [Recognize \<lparr> config = build_config ''webm'' opts, audio_content = b \<rparr>],
                ticks := ticks w + 3\<rparr>"
    by (simp only: assms(8) eq snd_conv)
  show "transcribeAudio env_healthy b ''webm'' opts w = (Inr chunk_result, w')"
    by (simp only: eq w')
  show "stt_initialized (svc w')" using assms(1) by (simp add: w')
  show "speechClient (svc w') = Some sc" using assms(2) by (simp add: w')
  show "dom (requestCount (svc w')) = insert cid (dom (requestCount (svc w)))"
    by (simp add: w')
qed

lemma healthy_chunks:
  shows healthy_c0: "transcribeAudio env_healthy (slice four_chunk_buffer 0 maxChunkSize) ''webm''
                 (chunk_options no_options 0) ready_world = (Inr chunk_result, healthy_w0)"
    and healthy_c1: "transcribeAudio env_healthy (slice four_chunk_buffer maxChunkSize (2 * maxChunkSize)) ''webm''
                 (chunk_options no_options 1) (sleep 1000 healthy_w0) = (Inr chunk_result, healthy_w1)"
    and healthy_c2: "transcribeAudio env_healthy (slice four_chunk_buffer (2 * maxChunkSize) (3 * maxChunkSize)) ''webm''
                 (chunk_options no_options 2) (sleep 1000 healthy_w1) = (Inr chunk_result, healthy_w2)"
    and healthy_c3: "transcribeAudio env_healthy (slice four_chunk_buffer (3 * maxChunkSize) (4 * maxChunkSize)) ''webm''
                 (chunk_options no_options 3) (sleep 1000 healthy_w2) = (Inr chunk_result, healthy_w3)"
proof -
  let ?sc = "SpeechClient ''demo-project'' (Some (AuthClient 0))"
  have r: "stt_initialized (svc ready_world)" "speechClient (svc ready_world) = Some ?sc"
          "dom (requestCount (svc ready_world)) = {}"
    by (simp_all add: ready_world_def)
  note s0 = healthy_step[OF r(1) r(2) four_chunk_slices_length(1) chunk_options_no_options(1) _ _
                           chunk_options_no_options(5) healthy_w0_def]
  have n0: "''default_chunk_0'' \<noteq> []" "''default_chunk_0'' \<notin> dom (requestCount (svc ready_world))"
    by (simp_all add: r(3))
  note t0 = s0[OF n0]
  show "transcribeAudio env_healthy (slice four_chunk_buffer 0 maxChunkSize) ''webm''
          (chunk_options no_options 0) ready_world = (Inr chunk_result, healthy_w0)"
    by (rule t0(1))
  have i1: "stt_initialized (svc (sleep 1000 healthy_w0))"
           "speechClient (svc (sleep 1000 healthy_w0)) = Some ?sc"
    using t0(2,3) by (simp_all add: sleep_svc)
  have n1: "''default_chunk_1'' \<noteq> []"
           "''default_chunk_1'' \<notin> dom (requestCount (svc (sleep 1000 healthy_w0)))"
    by (simp_all add: sleep_svc t0(4) r(3))
  note t1 = healthy_step[OF i1 four_chunk_slices_length(2) chunk_options_no_options(2) n1
                            chunk_options_no_options(5) healthy_w1_def]
  show "transcribeAudio env_healthy (slice four_chunk_buffer maxChunkSize (2 * maxChunkSize)) ''webm''
          (chunk_options no_options 1) (sleep 1000 healthy_w0) = (Inr chunk_result, healthy_w1)"
    by (rule t1(1))
  have i2: "stt_initialized (svc (sleep 1000 healthy_w1))"
           "speechClient (svc (sleep 1000 healthy_w1)) = Some ?sc"
    using t1(2,3) by (simp_all add: sleep_svc)
  have n2: "''default_chunk_2'' \<noteq> []"
           "''default_chunk_2'' \<notin> dom (requestCount (svc (sleep 1000 healthy_w1)))"
    by (simp_all add: sleep_svc t1(4) t0(4) r(3))
  note t2 = healthy_step[OF i2 four_chunk_slices_length(3) chunk_options_no_options(3) n2
                            chunk_options_no_options(5) healthy_w2_def]
  show "transcribeAudio env_healthy (slice four_chunk_buffer (2 * maxChunkSize) (3 * maxChunkSize)) ''webm''
          (chunk_options no_options 2) (sleep 1000 healthy_w1) = (Inr chunk_result, healthy_w2)"
    by (rule t2(1))
  have i3: "stt_initialized (svc (sleep 1000 healthy_w2))"
           "speechClient (svc (sleep 1000 healthy_w2)) = Some ?sc"
    using t2(2,3) by (simp_all add: sleep_svc)
  have n3: "''default_chunk_3'' \<noteq> []"
           "''default_chunk_3'' \<notin> dom (requestCount (svc (sleep 1000 healthy_w2)))"
    by (simp_all add: sleep_svc t2(4) t1(4) t0(4) r(3))
  note t3 = healthy_step[OF i3 four_chunk_slices_length(4) chunk_options_no_options(4) n3
                            chunk_options_no_options(5) healthy_w3_def]
  show "transcribeAudio env_healthy (slice four_chunk_buffer (3 * maxChunkSize) (4 * maxChunkSize)) ''webm''
          (chunk_options no_options 3) (sleep 1000 healthy_w2) = (Inr chunk_result, healthy_w3)"
    by (rule t3(1))
qed

lemma ready_world_no_events: "chunk_events (trace ready_world) = []"
  by (simp add: ready_world_def)

theorem four_chunks_merged_witness:
  "length four_chunk_buffer = 4 * maxChunkSize \<and>
   transcribeAudio env_healthy (slice four_chunk_buffer 0 maxChunkSize) ''webm''
     (chunk_options no_options 0) ready_world = (Inr chunk_result, healthy_w0) \<and>
   transcribeAudio env_healthy (slice four_chunk_buffer maxChunkSize (2 * maxChunkSize)) ''webm''
     (chunk_options no_options 1) (sleep 1000 healthy_w0) = (Inr chunk_result, healthy_w1) \<and>
   transcribeAudio env_healthy (slice four_chunk_buffer (2 * maxChunkSize) (3 * maxChunkSize)) ''webm''
     (chunk_options no_options 2) (sleep 1000 healthy_w1) = (Inr chunk_result, healthy_w2) \<and>
   transcribeAudio env_healthy (slice four_chunk_buffer (3 * maxChunkSize) (4 * maxChunkSize)) ''webm''
     (chunk_options no_options 3) (sleep 1000 healthy_w2) = (Inr chunk_result, healthy_w3) \<and>
   transcribeLongAudio env_healthy four_chunk_buffer ''webm'' no_options ready_world
     = (Inr \<lparr> success = True, transcription = ''hello hello hello hello'', confidence = 1/2,
              processingTime = 40, alternatives = [], wordDetails = [], debug = None,
              chunks = Some 4 \<rparr>, healthy_w3) \<and>
   chunk_events (trace healthy_w3)
     = [Recognize (chunk_request four_chunk_buffer ''webm'' no_options 0), Sleep 1000,
        Recognize (chunk_request four_chunk_buffer ''webm'' no_options 1), Sleep 1000,
        Recognize (chunk_request four_chunk_buffer ''webm'' no_options 2), Sleep 1000,
        Recognize (chunk_request four_chunk_buffer ''webm'' no_options 3)] \<and>
   dom (requestCount (svc healthy_w3))
     = {''default_chunk_0'', ''default_chunk_1'', ''default_chunk_2'', ''default_chunk_3''}"
proof -
  note inst = four_chunks_merged[OF four_chunk_buffer_length healthy_c0 healthy_c1 healthy_c2 healthy_c3]
  have A: "transcribeLongAudio env_healthy four_chunk_buffer ''webm'' no_options ready_world
     = (Inr \<lparr> success = True, transcription = ''hello hello hello hello'', confidence = 1/2,
              processingTime = 40, alternatives = [], wordDetails = [], debug = None,
              chunks = Some 4 \<rparr>, healthy_w3)"
    using inst by (simp add: chunk_result_def)
  have B: "chunk_events (trace healthy_w3)
     = [Recognize (chunk_request four_chunk_buffer ''webm'' no_options 0), Sleep 1000,
        Recognize (chunk_request four_chunk_buffer ''webm'' no_options 1), Sleep 1000,
        Recognize (chunk_request four_chunk_buffer ''webm'' no_options 2), Sleep 1000,
        Recognize (chunk_request four_chunk_buffer ''webm'' no_options 3)]"
    using inst by (simp add: ready_world_no_events)
  have C: "dom (requestCount (svc healthy_w3))
     = {''default_chunk_0'', ''default_chunk_1'', ''default_chunk_2'', ''default_chunk_3''}"
    using inst by (simp add: ready_world_def no_options_def or_string_def string_truthy_def)
  show ?thesis
    using four_chunk_buffer_length healthy_c0 healthy_c1 healthy_c2 healthy_c3 A B C by simp
qed

theorem long_audio_discards_details_witness:
  "length four_chunk_buffer > maxChunkSize \<and>
   transcribeLongAudio env_healthy four_chunk_buffer ''webm'' no_options ready_world
     = (Inr (merge_results [chunk_result, chunk_result, chunk_result, chunk_result] 40), healthy_w3) \<and>
   alternatives chunk_result \<noteq> [] \<and> wordDetails chunk_result \<noteq> [] \<and>
   alternatives (merge_results [chunk_result, chunk_result, chunk_result, chunk_result] 40) = [] \<and>
   wordDetails (merge_results [chunk_result, chunk_result, chunk_result, chunk_result] 40) = []"
proof -
  have big: "length four_chunk_buffer > maxChunkSize"
    using maxChunkSize_pos by (simp add: four_chunk_buffer_length)
  have run: "transcribeLongAudio env_healthy four_chunk_buffer ''webm'' no_options ready_world
     = (Inr (merge_results [chunk_result, chunk_result, chunk_result, chunk_result] 40), healthy_w3)"
    using transcribeLongAudio_four[OF four_chunk_buffer_length healthy_c0 healthy_c1 healthy_c2 healthy_c3]
    by (simp add: chunk_result_def)
  have single: "alternatives chunk_result \<noteq> [] \<and> wordDetails chunk_result \<noteq> []"
    by (simp add: chunk_result_def)
  from long_audio_discards_details[OF big run] big run single show ?thesis by simp
qed

end
